theory Spec2Isabelle
  imports Complex_Main
begin

section \<open>Python values\<close>

text \<open>
  The program is a single Python module, \<^verbatim>\<open>foosball.py\<close>. Python integers are
  unbounded and are modelled by \<^typ>\<open>int\<close>. Python floats are modelled by \<^typ>\<open>real\<close>.
  In the rating update, the averages and the merge the model computes with exact
  arithmetic where the interpreter rounds to a double; the concrete evaluations there
  only meet values that a double represents exactly (halves, small integers) or that are
  far from a rounding boundary. In \<^verbatim>\<open>load_data\<close> the rounding decides the number of wins
  that is stored already on ordinary lines (7 percent of 150 games: the double product
  is 10.500000000000002 and rounds to 11, the exact product 10.5 rounds to 10), so each
  operation there is rounded to a double, by \<open>double\<close> below. The range of a
  double is not modelled: \<^verbatim>\<open>math.pow\<close> raises \<^verbatim>\<open>OverflowError\<close> when the opponent
  rating exceeds the current rating by more than about 123000, far outside the ratings
  100 to 2999 of the data model.

  An exception that the module does not catch is a value of \<open>py_error\<close>.
\<close>

datatype py_error = TypeError | KeyError

text \<open>
  The builtin \<^verbatim>\<open>round(x)\<close> on a float: the nearest integer, a tie going to the even
  neighbour.
\<close>

definition py_round :: "real \<Rightarrow> int" where
  "py_round x =
     (let f = \<lfloor>x\<rfloor>; d = x - of_int f
      in if d < 1 / 2 then f
         else if 1 / 2 < d then f + 1
         else if even f then f else f + 1)"

text \<open>
  The double nearest to a real number, a tie going to the even significand: binary64
  with 53 significant bits, rounded to nearest-even. This is how the interpreter rounds
  the quotient \<^verbatim>\<open>int / int\<close>, the conversion of an \<^verbatim>\<open>int\<close> to a \<^verbatim>\<open>float\<close> and the product
  of two floats. The unit in the last place of \<open>x\<close> is 2 to the power
  \<open>\<lfloor>log 2 \<bar>x\<bar>\<rfloor> - 52\<close>.
\<close>

definition double :: "real \<Rightarrow> real" where
  "double x =
     (if x = 0 then 0
      else (let ulp = 2 powr (of_int \<lfloor>log 2 \<bar>x\<bar>\<rfloor> - 52)
            in of_int (py_round (x / ulp)) * ulp))"

section \<open>Global constants\<close>

definition K_FACTOR :: int where
  "K_FACTOR = 32"

definition RATING_MIN :: int where
  "RATING_MIN = 100"

definition RATING_MAX :: int where
  "RATING_MAX = 2999"

definition WIN_TYPE_MULTIPLIERS :: "(string \<times> real) list" where
  "WIN_TYPE_MULTIPLIERS =
     [(''win'', 1), (''smallwin'', 3 / 4), (''closewin'', 1 / 2),
      (''bigwin'', 5 / 4), (''perfectwin'', 3 / 2)]"

section \<open>The rating update\<close>

definition adjust_opponent_rating :: "real \<Rightarrow> int \<Rightarrow> real" where
  "adjust_opponent_rating opposition_rating curr_rating = opposition_rating"

text \<open>
  The protection table pairs an upper bound with an adjustment. The last bound of the
  source is \<^verbatim>\<open>float('inf')\<close>, written \<open>None\<close> here.
\<close>

definition RATING_PROTECTION_THRESHOLDS :: "(int option \<times> int) list" where
  "RATING_PROTECTION_THRESHOLDS =
     [(Some 150, 34), (Some 200, 21), (Some 400, 13), (Some 850, 8), (Some 1234, 5),
      (Some 1650, 3), (Some 2222, 2), (Some 2468, 1), (Some 2666, 0), (Some 2900, - 1),
      (None, - 2)]"

definition le_threshold :: "int \<Rightarrow> int option \<Rightarrow> bool" where
  "le_threshold curr_rating threshold =
     (case threshold of None \<Rightarrow> True | Some t \<Rightarrow> curr_rating \<le> t)"

text \<open>
  The loop of \<^verbatim>\<open>update_rating\<close> over the table: \<^verbatim>\<open>adjustment\<close> starts at 0 and takes
  the entry of the first bound that the current rating does not exceed.
\<close>

fun protection_adjustment :: "(int option \<times> int) list \<Rightarrow> int \<Rightarrow> int" where
  "protection_adjustment [] curr_rating = 0"
| "protection_adjustment ((threshold, adj) # rest) curr_rating =
     (if le_threshold curr_rating threshold then adj
      else protection_adjustment rest curr_rating)"

text \<open>The local \<^verbatim>\<open>expected\<close> of \<^verbatim>\<open>update_rating\<close>; \<^verbatim>\<open>math.pow(10, x)\<close> is \<open>10 powr x\<close>.\<close>

definition expected_score :: "int \<Rightarrow> real \<Rightarrow> real" where
  "expected_score curr_rating opposition_rating =
     1 / (1 + 10 powr ((adjust_opponent_rating opposition_rating curr_rating
                         - of_int curr_rating) / 400))"

text \<open>The local \<^verbatim>\<open>change\<close> as first assigned: \<^verbatim>\<open>multiplier * K_FACTOR * (score - expected)\<close>.\<close>

definition raw_change :: "int \<Rightarrow> int \<Rightarrow> real \<Rightarrow> real \<Rightarrow> real" where
  "raw_change curr_rating score opposition_rating multiplier =
     multiplier * of_int K_FACTOR
       * (of_int score - expected_score curr_rating opposition_rating)"

text \<open>
  The local \<^verbatim>\<open>change\<close> after the block \<^verbatim>\<open>if score in (0, 1)\<close>: the adjustment is
  added, and on a loss (\<^verbatim>\<open>score == 0\<close>) the sum is capped at 0.
\<close>

definition adjusted_change :: "int \<Rightarrow> int \<Rightarrow> real \<Rightarrow> real \<Rightarrow> real" where
  "adjusted_change curr_rating score opposition_rating multiplier =
     (let change = raw_change curr_rating score opposition_rating multiplier;
          adjustment = protection_adjustment RATING_PROTECTION_THRESHOLDS curr_rating
      in if score = 0 \<or> score = 1
         then (let change' = change + of_int adjustment
               in if score = 0 then min change' 0 else change')
         else change)"

text \<open>
  \<^verbatim>\<open>update_rating(curr_rating, score, opposition_rating, multiplier)\<close>. The match
  processor passes \<^verbatim>\<open>None\<close> as opponent rating when the opposing roster is empty; the
  subtraction in the first line then raises \<^verbatim>\<open>TypeError\<close>.
\<close>

definition update_rating :: "int \<Rightarrow> int \<Rightarrow> real option \<Rightarrow> real \<Rightarrow> py_error + (int \<times> real)" where
  "update_rating curr_rating score opposition_rating multiplier =
     (case opposition_rating of
        None \<Rightarrow> Inl TypeError
      | Some opp \<Rightarrow>
          (let change = adjusted_change curr_rating score opp multiplier
           in if change < 0 \<and> curr_rating \<le> RATING_MIN then Inr (RATING_MIN, 0)
              else Inr (max (min (py_round (of_int curr_rating + change)) RATING_MAX)
                            RATING_MIN,
                        change)))"

section \<open>Strings\<close>

text \<open>
  A Python string is modelled by a list of characters, read as ASCII: \<^verbatim>\<open>lower\<close>,
  \<^verbatim>\<open>isalnum\<close>, \<^verbatim>\<open>isdigit\<close> and \<^verbatim>\<open>strip\<close> act on the ASCII letters, digits and
  white space.
\<close>

definition ascii_uppercase :: string where
  "ascii_uppercase = ''ABCDEFGHIJKLMNOPQRSTUVWXYZ''"

definition ascii_lowercase :: string where
  "ascii_lowercase = ''abcdefghijklmnopqrstuvwxyz''"

definition digits :: string where
  "digits = ''0123456789''"

definition lower_char :: "char \<Rightarrow> char" where
  "lower_char c =
     (case map_of (zip ascii_uppercase ascii_lowercase) c of Some l \<Rightarrow> l | None \<Rightarrow> c)"

definition lower :: "string \<Rightarrow> string" where
  "lower s = map lower_char s"

definition isalnum :: "char \<Rightarrow> bool" where
  "isalnum c = (c \<in> set (ascii_lowercase @ ascii_uppercase @ digits))"

definition isdigit :: "string \<Rightarrow> bool" where
  "isdigit s = (s \<noteq> [] \<and> list_all (\<lambda>c. c \<in> set digits) s)"

definition digit_value :: "char \<Rightarrow> int" where
  "digit_value c = (case map_of (zip digits [0, 1, 2, 3, 4, 5, 6, 7, 8, 9]) c of
                      Some v \<Rightarrow> v | None \<Rightarrow> 0)"

text \<open>\<^verbatim>\<open>int(s)\<close> on a string that \<^verbatim>\<open>isdigit\<close> accepts.\<close>

definition int_of_digits :: "string \<Rightarrow> int" where
  "int_of_digits s = foldl (\<lambda>acc c. 10 * acc + digit_value c) 0 s"

definition isspace :: "char \<Rightarrow> bool" where
  "isspace c =
     (c \<in> set [CHR '' '', CHR 0x09, CHR 0x0A, CHR 0x0B, CHR 0x0C, CHR 0x0D,
                CHR 0x1C, CHR 0x1D, CHR 0x1E, CHR 0x1F])"

definition strip :: "string \<Rightarrow> string" where
  "strip s = rev (dropWhile isspace (rev (dropWhile isspace s)))"

text \<open>\<^verbatim>\<open>s.split(sep)\<close> for a separator of one character.\<close>

fun split :: "char \<Rightarrow> string \<Rightarrow> string list" where
  "split sep [] = [[]]"
| "split sep (c # cs) =
     (if c = sep then [] # split sep cs
      else (case split sep cs of [] \<Rightarrow> [[c]] | w # ws \<Rightarrow> (c # w) # ws))"

text \<open>\<^verbatim>\<open>sub in s\<close> on strings.\<close>

fun starts_with :: "string \<Rightarrow> string \<Rightarrow> bool" where
  "starts_with [] s = True"
| "starts_with (x # xs) [] = False"
| "starts_with (x # xs) (y # ys) = (x = y \<and> starts_with xs ys)"

fun str_in :: "string \<Rightarrow> string \<Rightarrow> bool" where
  "str_in sub [] = (sub = [])"
| "str_in sub (y # ys) = (starts_with sub (y # ys) \<or> str_in sub ys)"

definition canonicalize :: "string \<Rightarrow> string" where
  "canonicalize name = filter isalnum (lower name)"

section \<open>The rank catalogue\<close>

definition RANK_THRESHOLDS :: "(int \<times> string) list" where
  "RANK_THRESHOLDS =
     [(2999, ''ultra''), (2900, ''grand-master''), (2666, ''super-master''),
      (2468, ''master''), (2222, ''diamond''), (1650, ''emerald''), (1234, ''jade''),
      (850, ''plat''), (450, ''gold''), (250, ''silver''), (200, ''copper''),
      (150, ''bronze''), (125, ''steel''), (99, ''iron'')]"

definition HIDDEN_RANK :: string where
  "HIDDEN_RANK = ''lz''"

definition SPECIAL_IM :: string where
  "SPECIAL_IM = ''im''"

definition RANK_ORDER :: "(string \<times> nat) list" where
  "RANK_ORDER =
     [(''iron'', 0), (''steel'', 1), (''bronze'', 2), (''copper'', 3), (''silver'', 4),
      (''gold'', 5), (''plat'', 6), (''jade'', 7), (''emerald'', 8), (''diamond'', 9),
      (''master'', 10), (''super-master'', 11), (''grand-master'', 12), (''ultra'', 13),
      (HIDDEN_RANK, 13), (SPECIAL_IM, 13)]"

text \<open>\<^verbatim>\<open>RANK_ORDER.get(rank, dflt)\<close>.\<close>

definition rank_order_get :: "string \<Rightarrow> nat \<Rightarrow> nat" where
  "rank_order_get rank dflt =
     (case map_of RANK_ORDER rank of Some n \<Rightarrow> n | None \<Rightarrow> dflt)"

text \<open>
  \<^verbatim>\<open>RANK_ORDER[rank]\<close>. The subscript is only applied to a result of
  \<^verbatim>\<open>get_computed_rank\<close>, which is always a key of the table (lemma
  \<open>get_computed_rank_known\<close> below), so the lookup never raises.
\<close>

definition rank_order_at :: "string \<Rightarrow> nat" where
  "rank_order_at rank = the (map_of RANK_ORDER rank)"

fun first_rank :: "(int \<times> string) list \<Rightarrow> int \<Rightarrow> string" where
  "first_rank [] score = ''iron''"
| "first_rank ((threshold, rank) # rest) score =
     (if score \<ge> threshold then rank else first_rank rest score)"

definition get_computed_rank :: "int \<Rightarrow> string" where
  "get_computed_rank score = first_rank RANK_THRESHOLDS score"

section \<open>Player records and the registry\<close>

record player =
  display :: string
  offense :: int
  defense :: int
  played :: int
  wins :: int
  avg :: int
  rank_d :: string
  rank_o :: string
  rank_a :: string

text \<open>The module's global dictionary \<^verbatim>\<open>players\<close>, from canonical key to record.\<close>

type_synonym players = "string \<rightharpoonup> player"

text \<open>
  \<^verbatim>\<open>update_player_avg(key)\<close> and \<^verbatim>\<open>update_player_ranks(key)\<close> mutate the record
  \<^verbatim>\<open>players[key]\<close> in place; they are only called from \<^verbatim>\<open>save_data\<close>, on every key of
  the dictionary. Both are modelled on the record.
\<close>

definition update_player_avg :: "player \<Rightarrow> player" where
  "update_player_avg data =
     data\<lparr>avg := py_round (of_int (offense data + defense data) / 2)\<rparr>"

text \<open>The body of the loop of \<^verbatim>\<open>update_player_ranks\<close> for one field.\<close>

definition rank_step :: "string \<Rightarrow> string \<Rightarrow> string" where
  "rank_step current new_val =
     (if current = HIDDEN_RANK \<or> current = SPECIAL_IM then current
      else if rank_order_at new_val > rank_order_get current 1 then new_val
      else current)"

definition update_player_ranks :: "player \<Rightarrow> player" where
  "update_player_ranks rec =
     (let new_o = get_computed_rank (offense rec);
          new_d = get_computed_rank (defense rec);
          new_a = get_computed_rank (avg rec)
      in rec\<lparr>rank_o := rank_step (rank_o rec) new_o,
              rank_d := rank_step (rank_d rec) new_d,
              rank_a := rank_step (rank_a rec) new_a\<rparr>)"

section \<open>Merging records\<close>

definition choose_rank :: "string \<Rightarrow> string \<Rightarrow> string" where
  "choose_rank old_rank new_rank =
     (if rank_order_get new_rank 0 > rank_order_get old_rank 0 then new_rank
      else old_rank)"

text \<open>\<^verbatim>\<open>r if r else d\<close> for an optional string \<^verbatim>\<open>r\<close>: \<^verbatim>\<open>None\<close> and the empty string are falsy.\<close>

definition if_else :: "string option \<Rightarrow> string \<Rightarrow> string" where
  "if_else r d = (case r of None \<Rightarrow> d | Some s \<Rightarrow> if s \<noteq> [] then s else d)"

text \<open>
  The dictionary that \<^verbatim>\<open>merge_record\<close> builds from the record \<^verbatim>\<open>old\<close> and its
  arguments.
\<close>

definition merged_record ::
  "player \<Rightarrow> int \<Rightarrow> int \<Rightarrow> int \<Rightarrow> int
     \<Rightarrow> string option \<Rightarrow> string option \<Rightarrow> string option \<Rightarrow> player" where
  "merged_record old off deff n_played n_wins arg_rank_d arg_rank_o arg_rank_a =
     (let total_played = played old + n_played;
          (new_off, new_def) =
            (if total_played > 0
             then (py_round (of_int (offense old * played old + off * n_played)
                             / of_int total_played),
                   py_round (of_int (defense old * played old + deff * n_played)
                             / of_int total_played))
             else (off, deff));
          new_wins = wins old + n_wins
      in \<lparr>display = display old,
          offense = new_off,
          defense = new_def,
          played = total_played,
          wins = new_wins,
          avg = py_round (of_int (new_off + new_def) / 2),
          rank_d = choose_rank (rank_d old)
                     (if_else arg_rank_d (get_computed_rank new_def)),
          rank_o = choose_rank (rank_o old)
                     (if_else arg_rank_o (get_computed_rank new_off)),
          rank_a = choose_rank (rank_a old)
                     (if_else arg_rank_a
                        (get_computed_rank (py_round (of_int (new_off + new_def) / 2))))\<rparr>)"

text \<open>
  \<^verbatim>\<open>merge_record(key, new_display, off, deff, played, wins, rank_d, rank_o, rank_a)\<close>
  reads \<^verbatim>\<open>players[key]\<close> (a missing key raises \<^verbatim>\<open>KeyError\<close>) and replaces it.
\<close>

definition merge_record ::
  "string \<Rightarrow> string \<Rightarrow> int \<Rightarrow> int \<Rightarrow> int \<Rightarrow> int
     \<Rightarrow> string option \<Rightarrow> string option \<Rightarrow> string option \<Rightarrow> players
     \<Rightarrow> py_error + players" where
  "merge_record key new_display off deff n_played n_wins arg_rank_d arg_rank_o arg_rank_a
       players =
     (case players key of
        None \<Rightarrow> Inl KeyError
      | Some old \<Rightarrow>
          Inr (players(key \<mapsto>
                 merged_record old off deff n_played n_wins
                   arg_rank_d arg_rank_o arg_rank_a)))"

section \<open>Creating players\<close>

text \<open>The record that \<^verbatim>\<open>get_or_create_player\<close> stores for a new key.\<close>

definition new_player :: "string \<Rightarrow> string \<Rightarrow> player" where
  "new_player name key =
     (let rec = \<lparr>display = name, offense = RATING_MIN, defense = RATING_MIN,
                  played = 0, wins = 0, avg = RATING_MIN,
                  rank_d = get_computed_rank RATING_MIN,
                  rank_o = get_computed_rank RATING_MIN,
                  rank_a = get_computed_rank RATING_MIN\<rparr>
      in if str_in ''zhong'' key
         then rec\<lparr>rank_d := HIDDEN_RANK, rank_o := HIDDEN_RANK, rank_a := HIDDEN_RANK\<rparr>
         else rec)"

text \<open>\<^verbatim>\<open>get_or_create_player(name)\<close> returns the record and the registry it leaves.\<close>

definition get_or_create_player :: "string \<Rightarrow> players \<Rightarrow> player \<times> players" where
  "get_or_create_player name players =
     (let key = canonicalize name
      in case players key of
           Some rec \<Rightarrow> (rec, players)
         | None \<Rightarrow> (let rec = new_player name key in (rec, players(key \<mapsto> rec))))"

section \<open>Loading and saving\<close>

text \<open>
  \<^verbatim>\<open>load_data\<close> reads the snapshot line by line. Reading the file, splitting a line at
  its commas and \<^verbatim>\<open>int()\<close> on the four numeric fields are the interpreter's; a line
  that is empty, has fewer than five fields or a numeric field that \<^verbatim>\<open>int()\<close> refuses is
  skipped. An \<open>entry\<close> is a line that was not skipped: \<^verbatim>\<open>parts[0]\<close>, the integers
  read from \<^verbatim>\<open>parts[1]\<close> to \<^verbatim>\<open>parts[4]\<close>, and the remaining fields \<^verbatim>\<open>parts[5:]\<close>.

  The number of wins is \<^verbatim>\<open>round((win_rate / 100) * played)\<close>: the quotient of the two
  integers is a double, \<^verbatim>\<open>played\<close> is converted to a double, their product is a double,
  and \<^verbatim>\<open>round\<close> takes the integer nearest to that double.
\<close>

record entry =
  e_disp :: string
  e_off :: int
  e_deff :: int
  e_played :: int
  e_win_rate :: int
  e_rest :: "string list"

text \<open>\<^verbatim>\<open>parts[5 + i] if len(parts) >= 6 + i else None\<close>.\<close>

definition part_opt :: "string list \<Rightarrow> nat \<Rightarrow> string option" where
  "part_opt rest i = (if i < length rest then Some (rest ! i) else None)"

text \<open>The body of the loop of \<^verbatim>\<open>load_data\<close> for one entry.\<close>

definition load_line :: "entry \<Rightarrow> players \<Rightarrow> py_error + players" where
  "load_line e players =
     (let disp = e_disp e;
          canon = canonicalize disp;
          off = e_off e;
          deff = e_deff e;
          n_played = e_played e;
          win_rate = e_win_rate e;
          n_wins = (if n_played > 0
                    then py_round (double (double (of_int win_rate / 100)
                                           * double (of_int n_played)))
                    else 0);
          n_avg = (case part_opt (e_rest e) 0 of
                     Some p \<Rightarrow> if isdigit p then int_of_digits p
                               else py_round (of_int (off + deff) / 2)
                   | None \<Rightarrow> py_round (of_int (off + deff) / 2));
          arg_rank_d = part_opt (e_rest e) 1;
          arg_rank_o = part_opt (e_rest e) 2;
          arg_rank_a = part_opt (e_rest e) 3
      in if players canon \<noteq> None
         then merge_record canon disp off deff n_played n_wins
                arg_rank_d arg_rank_o arg_rank_a players
         else (let rec = \<lparr>display = disp, offense = off, defense = deff,
                           played = n_played, wins = n_wins, avg = n_avg,
                           rank_d = if_else arg_rank_d (get_computed_rank deff),
                           rank_o = if_else arg_rank_o (get_computed_rank off),
                           rank_a = if_else arg_rank_a (get_computed_rank n_avg)\<rparr>
               in Inr (players(canon \<mapsto>
                    (if str_in ''zhong'' canon
                     then rec\<lparr>rank_d := HIDDEN_RANK, rank_o := HIDDEN_RANK,
                              rank_a := HIDDEN_RANK\<rparr>
                     else rec)))))"

fun load_data :: "entry list \<Rightarrow> players \<Rightarrow> py_error + players" where
  "load_data [] players = Inr players"
| "load_data (e # es) players =
     (case load_line e players of
        Inl err \<Rightarrow> Inl err
      | Inr players' \<Rightarrow> load_data es players')"

text \<open>
  \<^verbatim>\<open>save_data\<close> recomputes the average and the ranks of every record and writes the
  file; the model keeps the registry it leaves.
\<close>

definition save_data :: "players \<Rightarrow> players" where
  "save_data players =
     (\<lambda>key. map_option (\<lambda>data. update_player_ranks (update_player_avg data)) (players key))"

section \<open>Processing a match\<close>

text \<open>The comprehension of \<^verbatim>\<open>parse_team\<close>: the stripped, non-empty names of a part.\<close>

definition roster :: "string \<Rightarrow> string list" where
  "roster part = map strip (filter (\<lambda>p. strip p \<noteq> []) (split CHR '','' part))"

definition parse_team :: "string \<Rightarrow> string list \<times> string list" where
  "parse_team team_str =
     (if CHR '';'' \<in> set team_str
      then (let offense_part = takeWhile (\<lambda>c. c \<noteq> CHR '';'') team_str;
                defense_part = drop 1 (dropWhile (\<lambda>c. c \<noteq> CHR '';'') team_str)
            in (roster offense_part, roster defense_part))
      else (roster team_str, []))"

text \<open>The two rating fields, \<^verbatim>\<open>"offense"\<close> and \<^verbatim>\<open>"defense"\<close>, that a role selects.\<close>

datatype role = Offense | Defense

fun rating_of :: "role \<Rightarrow> player \<Rightarrow> int" where
  "rating_of Offense rec = offense rec"
| "rating_of Defense rec = defense rec"

fun set_rating :: "role \<Rightarrow> int \<Rightarrow> player \<Rightarrow> player" where
  "set_rating Offense v rec = rec\<lparr>offense := v\<rparr>"
| "set_rating Defense v rec = rec\<lparr>defense := v\<rparr>"

text \<open>The loop that creates every named player.\<close>

fun create_players :: "string list \<Rightarrow> players \<Rightarrow> players" where
  "create_players [] players = players"
| "create_players (name # names) players =
     create_players names (snd (get_or_create_player name players))"

text \<open>\<^verbatim>\<open>sum(get_or_create_player(name)[role] for name in names)\<close>.\<close>

fun total_rating :: "role \<Rightarrow> string list \<Rightarrow> players \<Rightarrow> int \<times> players" where
  "total_rating role [] players = (0, players)"
| "total_rating role (name # names) players =
     (let (rec, players') = get_or_create_player name players;
          (total, players'') = total_rating role names players'
      in (rating_of role rec + total, players''))"

definition get_average_rating ::
  "string list \<Rightarrow> role \<Rightarrow> players \<Rightarrow> real option \<times> players" where
  "get_average_rating names role players =
     (if names = [] then (None, players)
      else (let (total, players') = total_rating role names players
            in (Some (of_int total / of_nat (length names)), players')))"

definition calculate_expected_win_rate :: "int \<Rightarrow> real option \<Rightarrow> py_error + real" where
  "calculate_expected_win_rate player_rating opponent_rating =
     (case opponent_rating of
        None \<Rightarrow> Inl TypeError
      | Some opp \<Rightarrow>
          Inr (1 / (1 + 10 powr ((opp - of_int player_rating) / 400)) * 100))"

text \<open>
  One of the four loops that compute the expected win rates of a roster in a role. The
  rates are only printed, but computing one on \<^verbatim>\<open>None\<close> raises.
\<close>

fun expected_rates ::
  "role \<Rightarrow> real option \<Rightarrow> string list \<Rightarrow> players \<Rightarrow> py_error + (real list \<times> players)" where
  "expected_rates role opp [] players = Inr ([], players)"
| "expected_rates role opp (name # names) players =
     (let (rec, players') = get_or_create_player name players
      in case calculate_expected_win_rate (rating_of role rec) opp of
           Inl err \<Rightarrow> Inl err
         | Inr rate \<Rightarrow>
             (case expected_rates role opp names players' of
                Inl err \<Rightarrow> Inl err
              | Inr (rates, players'') \<Rightarrow> Inr (rate # rates, players'')))"

text \<open>
  One of the four loops that update the ratings of a roster in a role. The loops of
  team 1 pass score 1 and add 1 to \<^verbatim>\<open>wins\<close>; the loops of team 2 pass score 0 and leave
  \<^verbatim>\<open>wins\<close>. The local \<^verbatim>\<open>player\<close> is the record \<^verbatim>\<open>players[canonicalize(name)]\<close> itself, so
  the assignments change the registry.
\<close>

fun update_team ::
  "role \<Rightarrow> int \<Rightarrow> real option \<Rightarrow> real \<Rightarrow> string list \<Rightarrow> players \<Rightarrow> py_error + players" where
  "update_team role score opp multiplier [] players = Inr players"
| "update_team role score opp multiplier (name # names) players =
     (let (rec, players') = get_or_create_player name players
      in case update_rating (rating_of role rec) score opp multiplier of
           Inl err \<Rightarrow> Inl err
         | Inr (new_rating, change) \<Rightarrow>
             update_team role score opp multiplier names
               (players'(canonicalize name \<mapsto>
                  (set_rating role new_rating rec)
                    \<lparr>played := played rec + 1,
                     wins := (if score = 1 then wins rec + 1 else wins rec)\<rparr>)))"

text \<open>
  The four opponent averages of \<^verbatim>\<open>process_game\<close>, in the order of the source:
  \<^verbatim>\<open>opp_for_team1\<close>, \<^verbatim>\<open>opp_off_team1\<close>, \<^verbatim>\<open>opp_for_team2\<close>, \<^verbatim>\<open>opp_off_team2\<close>.
\<close>

definition opponent_averages ::
  "string list \<times> string list \<Rightarrow> string list \<times> string list \<Rightarrow> players
     \<Rightarrow> (real option \<times> real option \<times> real option \<times> real option) \<times> players" where
  "opponent_averages team1 team2 players =
     (let (team1_off, team1_def) = team1;
          (team2_off, team2_def) = team2;
          (opp_for_team1, ps1) =
            (if team2_def \<noteq> [] then get_average_rating team2_def Defense players
             else get_average_rating team2_off Offense players);
          (opp_off_team1, ps2) =
            (if team2_off \<noteq> [] then get_average_rating team2_off Offense ps1
             else get_average_rating team2_def Defense ps1);
          (opp_for_team2, ps3) =
            (if team1_def \<noteq> [] then get_average_rating team1_def Defense ps2
             else get_average_rating team1_off Offense ps2);
          (opp_off_team2, ps4) =
            (if team1_off \<noteq> [] then get_average_rating team1_off Offense ps3
             else get_average_rating team1_def Defense ps3)
      in ((opp_for_team1, opp_off_team1, opp_for_team2, opp_off_team2), ps4))"

text \<open>The four loops that compute and print the expected win rates.\<close>

definition show_expected_rates ::
  "real option \<times> real option \<times> real option \<times> real option
     \<Rightarrow> string list \<times> string list \<Rightarrow> string list \<times> string list \<Rightarrow> players
     \<Rightarrow> py_error + players" where
  "show_expected_rates opps team1 team2 players =
     (let (opp_for_team1, opp_off_team1, opp_for_team2, opp_off_team2) = opps;
          (team1_off, team1_def) = team1;
          (team2_off, team2_def) = team2
      in case expected_rates Offense opp_for_team1 team1_off players of
           Inl err \<Rightarrow> Inl err
         | Inr (rates1, ps1) \<Rightarrow>
      (case expected_rates Defense opp_off_team1 team1_def ps1 of
           Inl err \<Rightarrow> Inl err
         | Inr (rates2, ps2) \<Rightarrow>
      (case expected_rates Offense opp_for_team2 team2_off ps2 of
           Inl err \<Rightarrow> Inl err
         | Inr (rates3, ps3) \<Rightarrow>
      (case expected_rates Defense opp_off_team2 team2_def ps3 of
           Inl err \<Rightarrow> Inl err
         | Inr (rates4, ps4) \<Rightarrow> Inr ps4))))"

text \<open>The four loops that update the ratings and the counters.\<close>

definition apply_rating_changes ::
  "real \<Rightarrow> real option \<times> real option \<times> real option \<times> real option
     \<Rightarrow> string list \<times> string list \<Rightarrow> string list \<times> string list \<Rightarrow> players
     \<Rightarrow> py_error + players" where
  "apply_rating_changes base_multiplier opps team1 team2 players =
     (let (opp_for_team1, opp_off_team1, opp_for_team2, opp_off_team2) = opps;
          (team1_off, team1_def) = team1;
          (team2_off, team2_def) = team2
      in case update_team Offense 1 opp_for_team1 base_multiplier team1_off players of
           Inl err \<Rightarrow> Inl err
         | Inr ps1 \<Rightarrow>
      (case update_team Defense 1 opp_off_team1 base_multiplier team1_def ps1 of
           Inl err \<Rightarrow> Inl err
         | Inr ps2 \<Rightarrow>
      (case update_team Offense 0 opp_for_team2 base_multiplier team2_off ps2 of
           Inl err \<Rightarrow> Inl err
         | Inr ps3 \<Rightarrow>
      update_team Defense 0 opp_off_team2 base_multiplier team2_def ps3)))"

text \<open>
  The part of \<^verbatim>\<open>process_game\<close> after the two team strings are parsed: every named
  player is created, the opponent averages are taken, the expected rates are shown, the
  ratings are updated and the data is saved. The team average and the joined display
  names, which are printed between the two groups of loops, read records that exist by
  then and are not modelled.
\<close>

definition process_teams ::
  "real \<Rightarrow> string list \<times> string list \<Rightarrow> string list \<times> string list \<Rightarrow> players
     \<Rightarrow> py_error + players" where
  "process_teams base_multiplier team1 team2 players =
     (let ps0 = create_players (fst team1 @ snd team1 @ fst team2 @ snd team2) players;
          (opps, ps1) = opponent_averages team1 team2 ps0
      in case show_expected_rates opps team1 team2 ps1 of
           Inl err \<Rightarrow> Inl err
         | Inr ps2 \<Rightarrow>
             (case apply_rating_changes base_multiplier opps team1 team2 ps2 of
                Inl err \<Rightarrow> Inl err
              | Inr ps3 \<Rightarrow> Inr (save_data ps3)))"

text \<open>
  \<^verbatim>\<open>process_game(command)\<close>. Matching the command against the pattern is the regular
  expression library's; the model takes the result of \<^verbatim>\<open>re.match\<close>: no match, or the
  three groups. The result is the lines printed for a command that is refused (the
  lines that display a processed match are not modelled) and the registry.
\<close>

definition process_game ::
  "(string \<times> string \<times> string) option \<Rightarrow> players \<Rightarrow> py_error + (string list \<times> players)" where
  "process_game m players =
     (case m of
        None \<Rightarrow> Inr ([''Command format not recognized.''], players)
      | Some (team1_str, group2, team2_str) \<Rightarrow>
          (let win_type = lower group2
           in case map_of WIN_TYPE_MULTIPLIERS win_type of
                None \<Rightarrow> Inr ([''Invalid win type.''], players)
              | Some base_multiplier \<Rightarrow>
                  (case process_teams base_multiplier (parse_team team1_str)
                          (parse_team team2_str) players of
                     Inl err \<Rightarrow> Inl err
                   | Inr players' \<Rightarrow> Inr ([], players'))))"

section \<open>Combining two players\<close>

definition quoted :: "string \<Rightarrow> string" where
  "quoted s = [CHR 0x27] @ s @ [CHR 0x27]"

text \<open>
  \<^verbatim>\<open>process_combine_command(command)\<close>, on the result of \<^verbatim>\<open>re.match\<close>: no match, or the
  two groups.
\<close>

definition process_combine_command ::
  "(string \<times> string) option \<Rightarrow> players \<Rightarrow> py_error + (string list \<times> players)" where
  "process_combine_command m players =
     (case m of
        None \<Rightarrow> Inr ([''Invalid format. Use: combine a to b.''], players)
      | Some (group1, group2) \<Rightarrow>
          (let src_name = strip group1;
               dest_name = strip group2;
               src_key = canonicalize src_name;
               dest_key = canonicalize dest_name
           in case players src_key of
                None \<Rightarrow> Inr ([''Player '' @ quoted src_name @ '' not found.''], players)
              | Some src \<Rightarrow>
                  (case players dest_key of
                     None \<Rightarrow>
                       Inr ([''Player '' @ quoted dest_name @ '' not found.''], players)
                   | Some dest \<Rightarrow>
                       (case merge_record dest_key (display dest) (offense src)
                               (defense src) (played src) (wins src) None None None
                               players of
                          Inl err \<Rightarrow> Inl err
                        | Inr merged \<Rightarrow>
                            (case merged src_key of
                               None \<Rightarrow> Inl KeyError
                             | Some removed \<Rightarrow>
                                 Inr ([''Combined '' @ quoted src_name @ '' into ''
                                         @ quoted dest_name
                                         @ '' (main record remains as ''
                                         @ quoted dest_name @ '').''],
                                      merged(src_key := None)))))))"

section \<open>The counters of a record\<close>

text \<open>
  The data model asks of every record that \<^verbatim>\<open>wins\<close> and \<^verbatim>\<open>played\<close> are not negative
  and that \<^verbatim>\<open>wins\<close> is at most \<^verbatim>\<open>played\<close>. These predicates state it of a record and
  of a registry; \<open>entry_ok\<close> states of a line of the snapshot that its number of games
  is not negative and at most 2 to the power 53 (up to there every integer is a double)
  and that its win percentage is between 0 and 100.
\<close>

definition counts_ok :: "player \<Rightarrow> bool" where
  "counts_ok rec = (0 \<le> wins rec \<and> wins rec \<le> played rec)"

definition registry_ok :: "players \<Rightarrow> bool" where
  "registry_ok players = (\<forall>key rec. players key = Some rec \<longrightarrow> counts_ok rec)"

definition entry_ok :: "entry \<Rightarrow> bool" where
  "entry_ok e =
     (0 \<le> e_played e \<and> e_played e \<le> 2 ^ 53 \<and> 0 \<le> e_win_rate e \<and> e_win_rate e \<le> 100)"

section \<open>Rounding\<close>

lemma py_round_of_int: "py_round (of_int n) = n"
  by (simp add: py_round_def)

lemma py_round_numeral: "py_round (numeral w) = numeral w"
  using py_round_of_int [of "numeral w"] by simp


lemma py_round_mono: "x \<le> y \<Longrightarrow> py_round x \<le> py_round y"
proof -
  assume xy: "x \<le> y"
  have fl: "\<lfloor>x\<rfloor> \<le> \<lfloor>y\<rfloor>"
    using xy by (rule floor_mono)
  show ?thesis
  proof (cases "\<lfloor>x\<rfloor> = \<lfloor>y\<rfloor>")
    case True
    with xy show ?thesis
      by (auto simp: py_round_def Let_def)
  next
    case False
    with fl have "\<lfloor>x\<rfloor> + 1 \<le> \<lfloor>y\<rfloor>"
      by simp
    moreover have "py_round x \<le> \<lfloor>x\<rfloor> + 1"
      by (simp add: py_round_def Let_def)
    moreover have "\<lfloor>y\<rfloor> \<le> py_round y"
      by (simp add: py_round_def Let_def)
    ultimately show ?thesis
      by linarith
  qed
qed

section \<open>Rounding to a double\<close>

lemma double_zero: "double 0 = 0"
  by (simp add: double_def)

lemma binade:
  assumes "0 < x"
  shows "2 powr of_int \<lfloor>log 2 x\<rfloor> \<le> x" and "x < 2 powr (of_int \<lfloor>log 2 x\<rfloor> + 1)"
proof -
  have a: "of_int \<lfloor>log 2 x\<rfloor> \<le> log 2 x"
    by (rule of_int_floor_le)
  have "(of_int \<lfloor>log 2 x\<rfloor> \<le> log 2 x) = (2 powr of_int \<lfloor>log 2 x\<rfloor> \<le> x)"
    using assms by (intro le_log_iff) simp_all
  with a show "2 powr of_int \<lfloor>log 2 x\<rfloor> \<le> x"
    by blast
  have b: "log 2 x < of_int \<lfloor>log 2 x\<rfloor> + 1"
    by linarith
  have "(log 2 x < of_int \<lfloor>log 2 x\<rfloor> + 1) = (x < 2 powr (of_int \<lfloor>log 2 x\<rfloor> + 1))"
    using assms by (intro log_less_iff) simp_all
  with b show "x < 2 powr (of_int \<lfloor>log 2 x\<rfloor> + 1)"
    by blast
qed

lemma binade_unique:
  assumes "0 < x" and "2 powr of_int e \<le> x" and "x < 2 powr (of_int e + 1)"
  shows "\<lfloor>log 2 x\<rfloor> = e"
proof (rule floor_unique)
  show "of_int e \<le> log 2 x"
    using assms(1,2) by (simp add: le_log_iff)
  show "log 2 x < of_int e + 1"
    using assms(1,3) by (simp add: log_less_iff)
qed

lemma double_pos:
  assumes "0 < x"
  shows "double x = of_int (py_round (x / 2 powr (of_int \<lfloor>log 2 x\<rfloor> - 52)))
                     * 2 powr (of_int \<lfloor>log 2 x\<rfloor> - 52)"
  using assms by (simp add: double_def Let_def)

lemma double_bounds:
  assumes "0 < x"
  shows "2 powr of_int \<lfloor>log 2 x\<rfloor> \<le> double x"
    and "double x \<le> 2 powr (of_int \<lfloor>log 2 x\<rfloor> + 1)"
proof -
  let ?e = "\<lfloor>log 2 x\<rfloor>"
  let ?u = "(2::real) powr (of_int ?e - 52)"
  have u: "0 < ?u"
    by simp
  have lo: "2 powr of_int ?e = of_int (2 ^ 52) * ?u"
    by (simp add: powr_diff)
  have hi: "2 powr (of_int ?e + 1) = of_int (2 ^ 53) * ?u"
    by (simp add: powr_diff powr_add)
  have "of_int (2 ^ 52) * ?u \<le> x"
    using binade(1) [OF assms] lo by simp
  then have "of_int (2 ^ 52) \<le> x / ?u"
    using u by (simp add: pos_le_divide_eq)
  then have "py_round (of_int (2 ^ 52)) \<le> py_round (x / ?u)"
    by (rule py_round_mono)
  then have a: "2 ^ 52 \<le> py_round (x / ?u)"
    by (simp only: py_round_of_int)
  have "x \<le> of_int (2 ^ 53) * ?u"
    using binade(2) [OF assms] hi by simp
  then have "x / ?u \<le> of_int (2 ^ 53)"
    using u by (simp add: pos_divide_le_eq)
  then have "py_round (x / ?u) \<le> py_round (of_int (2 ^ 53))"
    by (rule py_round_mono)
  then have b: "py_round (x / ?u) \<le> 2 ^ 53"
    by (simp only: py_round_of_int)
  from a have "of_int (2 ^ 52) * ?u \<le> of_int (py_round (x / ?u)) * ?u"
    using u by (intro mult_right_mono) (simp_all del: of_int_power)
  then show "2 powr of_int ?e \<le> double x"
    unfolding double_pos [OF assms] lo .
  from b have "of_int (py_round (x / ?u)) * ?u \<le> of_int (2 ^ 53) * ?u"
    using u by (intro mult_right_mono) (simp_all del: of_int_power)
  then show "double x \<le> 2 powr (of_int ?e + 1)"
    unfolding double_pos [OF assms] hi .
qed

lemma double_nonneg: "0 \<le> x \<Longrightarrow> 0 \<le> double x"
proof (cases "x = 0")
  case True
  then show ?thesis by (simp add: double_zero)
next
  case False
  assume "0 \<le> x"
  with False have "0 < x" by simp
  from double_bounds(1) [OF this] show ?thesis
    by (smt (verit) powr_gt_zero)
qed

lemma double_mono:
  assumes "0 \<le> x" and "x \<le> y"
  shows "double x \<le> double y"
proof (cases "x = 0")
  case True
  with assms show ?thesis
    by (simp add: double_zero double_nonneg)
next
  case False
  with assms have x: "0 < x" and y: "0 < y"
    by simp_all
  let ?ex = "\<lfloor>log 2 x\<rfloor>" and ?ey = "\<lfloor>log 2 y\<rfloor>"
  have "log 2 x \<le> log 2 y"
    using x assms(2) by simp
  then have le: "?ex \<le> ?ey"
    by (rule floor_mono)
  show ?thesis
  proof (cases "?ex = ?ey")
    case True
    let ?u = "(2::real) powr (of_int ?ey - 52)"
    have "x / ?u \<le> y / ?u"
      using assms(2) by (simp add: divide_right_mono)
    then have "py_round (x / ?u) \<le> py_round (y / ?u)"
      by (rule py_round_mono)
    then have "of_int (py_round (x / ?u)) * ?u \<le> of_int (py_round (y / ?u)) * ?u"
      by (intro mult_right_mono) simp_all
    then show ?thesis
      unfolding double_pos [OF x] double_pos [OF y] True .
  next
    case False
    with le have "?ex + 1 \<le> ?ey"
      by simp
    then have "(of_int ?ex :: real) + 1 \<le> of_int ?ey"
      by linarith
    then have "(2::real) powr (of_int ?ex + 1) \<le> 2 powr of_int ?ey"
      by simp
    with double_bounds(2) [OF x] double_bounds(1) [OF y] show ?thesis
      by linarith
  qed
qed


lemma double_binade:
  assumes "0 < x" and "2 powr of_int e \<le> x" and "x < 2 powr (of_int e + 1)"
  shows "double x = of_int (py_round (x / 2 powr of_int (e - 52))) * 2 powr of_int (e - 52)"
  using double_pos [OF assms(1)] binade_unique [OF assms] by simp

lemma double_below_one:
  assumes "1 \<le> x * 2 ^ k" and "x * 2 ^ k < 2"
  shows "double x = of_int (py_round (x * 2 ^ (k + 52))) / 2 ^ (k + 52)"
proof -
  have p: "(2::real) powr of_int (- int k) = 1 / 2 ^ k"
    by (simp add: powr_minus powr_realpow divide_inverse)
  have "(of_int (- int k - 52) :: real) = - real (k + 52)"
    by simp
  then have q: "(2::real) powr of_int (- int k - 52) = 1 / 2 ^ (k + 52)"
    by (simp only: powr_minus powr_realpow [OF zero_less_numeral] divide_inverse mult_1)
  have x: "0 < x"
    using assms(1) by (smt (verit) mult_nonpos_nonneg zero_le_power)
  have lo: "2 powr of_int (- int k) \<le> x"
    using assms(1) unfolding p by (simp add: pos_divide_le_eq)
  have "(2::real) powr (of_int (- int k) + 1) = 2 powr of_int (- int k) * 2 powr 1"
    by (rule powr_add)
  then have "(2::real) powr (of_int (- int k) + 1) = 2 / 2 ^ k"
    unfolding p by simp
  then have hi: "x < 2 powr (of_int (- int k) + 1)"
    using assms(2) by (simp add: pos_less_divide_eq)
  show ?thesis
    using double_binade [OF x lo hi] unfolding q by simp
qed

lemma double_from_one:
  assumes "2 ^ k \<le> x" and "x < 2 ^ (k + 1)" and "k \<le> 52"
  shows "double x = of_int (py_round (x * 2 ^ (52 - k))) / 2 ^ (52 - k)"
proof -
  have p: "(2::real) powr of_int (int k) = 2 ^ k"
    by (simp add: powr_realpow)
  have "(of_int (int k - 52) :: real) = - real (52 - k)"
    using assms(3) by simp
  then have q: "(2::real) powr of_int (int k - 52) = 1 / 2 ^ (52 - k)"
    by (simp only: powr_minus powr_realpow [OF zero_less_numeral] divide_inverse mult_1)
  have x: "0 < x"
    using assms(1) by (smt (verit) zero_less_power)
  have lo: "2 powr of_int (int k) \<le> x"
    using assms(1) unfolding p .
  have "(2::real) powr (of_int (int k) + 1) = 2 powr of_int (int k) * 2 powr 1"
    by (rule powr_add)
  then have "(2::real) powr (of_int (int k) + 1) = 2 ^ (k + 1)"
    unfolding p by simp
  then have hi: "x < 2 powr (of_int (int k) + 1)"
    using assms(2) by simp
  show ?thesis
    using double_binade [OF x lo hi] unfolding q by simp
qed

lemma double_large:
  assumes "2 ^ k \<le> x" and "x < 2 ^ (k + 1)" and "52 \<le> k"
  shows "double x = of_int (py_round (x / 2 ^ (k - 52))) * 2 ^ (k - 52)"
proof -
  have p: "(2::real) powr of_int (int k) = 2 ^ k"
    by (simp add: powr_realpow)
  have "(of_int (int k - 52) :: real) = real (k - 52)"
    using assms(3) by simp
  then have q: "(2::real) powr of_int (int k - 52) = 2 ^ (k - 52)"
    by (simp only: powr_realpow [OF zero_less_numeral])
  have x: "0 < x"
    using assms(1) by (smt (verit) zero_less_power)
  have lo: "2 powr of_int (int k) \<le> x"
    using assms(1) unfolding p .
  have "(2::real) powr (of_int (int k) + 1) = 2 powr of_int (int k) * 2 powr 1"
    by (rule powr_add)
  then have "(2::real) powr (of_int (int k) + 1) = 2 ^ (k + 1)"
    unfolding p by simp
  then have hi: "x < 2 powr (of_int (int k) + 1)"
    using assms(2) by simp
  show ?thesis
    using double_binade [OF x lo hi] unfolding q by simp
qed

lemma double_of_int:
  assumes "0 \<le> n" and "n \<le> 2 ^ 53"
  shows "double (of_int n) = of_int n"
proof (cases "n = 0")
  case True
  then show ?thesis
    by (simp add: double_zero)
next
  case False
  with assms(1) have "1 \<le> nat n"
    by simp
  then obtain k where k: "2 ^ k \<le> nat n" "nat n < 2 ^ (k + 1)"
    using ex_power_ivl1 [of 2 "nat n"] by auto
  have n: "real_of_int n = real (nat n)"
    using assms(1) by simp
  have lo: "(2::real) ^ k \<le> of_int n"
    unfolding n using k(1) by (metis of_nat_le_iff of_nat_numeral of_nat_power)
  have hi: "real_of_int n < 2 ^ (k + 1)"
    unfolding n using k(2) by (metis of_nat_less_iff of_nat_numeral of_nat_power)
  show ?thesis
  proof (cases "k \<le> 52")
    case True
    have "real_of_int n * 2 ^ (52 - k) = of_int (n * 2 ^ (52 - k))"
      by simp
    then have "py_round (real_of_int n * 2 ^ (52 - k)) = n * 2 ^ (52 - k)"
      by (simp only: py_round_of_int)
    then show ?thesis
      using double_from_one [OF lo hi True] by simp
  next
    case False
    then have "53 \<le> k"
      by simp
    then have "(2::int) ^ 53 \<le> 2 ^ k"
      by (intro power_increasing) simp_all
    moreover have kn: "(2::int) ^ k \<le> n"
    proof -
      have "int (2 ^ k) \<le> int (nat n)"
        using k(1) by (simp only: of_nat_le_iff)
      then show ?thesis
        using assms(1) by simp
    qed
    ultimately have n53: "n = 2 ^ 53"
      using assms(2) by linarith
    have k53: "k = 53"
    proof (rule ccontr)
      assume "k \<noteq> 53"
      with \<open>53 \<le> k\<close> have "54 \<le> k"
        by simp
      then have "(2::int) ^ 54 \<le> 2 ^ k"
        by (intro power_increasing) simp_all
      with kn n53 show False
        by simp
    qed
    have "double (of_int n) = of_int (py_round (of_int n / 2 ^ (53 - 52))) * 2 ^ (53 - 52)"
      using double_large [of 53 "of_int n"] lo hi unfolding k53 by simp
    also have "\<dots> = of_int n"
      unfolding n53 by (simp add: py_round_def)
    finally show ?thesis .
  qed
qed

lemma double_one: "double 1 = 1"
  using double_of_int [of 1] by simp

lemma double_of_int_le:
  assumes "0 \<le> x" and "x \<le> of_int n" and "n \<le> 2 ^ 53"
  shows "0 \<le> double x \<and> double x \<le> of_int n"
proof -
  have "0 \<le> n"
    using assms(1,2) by linarith
  then have "double (of_int n) = of_int n"
    using assms(3) by (rule double_of_int)
  with double_mono [OF assms(1,2)] double_nonneg [OF assms(1)] show ?thesis
    by simp
qed

lemma double_numeral:
  "(numeral w :: int) \<le> 2 ^ 53 \<Longrightarrow> double (numeral w) = numeral w"
  using double_of_int [of "numeral w"] by simp

lemma double_half: "double (1 / 2) = 1 / 2"
  using double_below_one [of "1 / 2" 1] by (simp add: py_round_def)

text \<open>
  Seven percent of 150 games: 7 / 100 is rounded up to a double, the product with 150
  is rounded up again and lies above 10.5.
\<close>

lemma double_7_percent: "double (7 / 100) = 5044031582654956 / 2 ^ 56"
  using double_below_one [of "7 / 100" 4] by (simp add: py_round_def)

lemma double_7_percent_of_150:
  "double (5044031582654956 / 2 ^ 56 * 150) = 5910974510923777 / 2 ^ 49"
  using double_from_one [of 3 "5044031582654956 / 2 ^ 56 * 150"] by (simp add: py_round_def)

lemma wins_7_percent_of_150: "py_round (double (double (7 / 100) * double 150)) = 11"
proof -
  have "double 150 = 150"
    by (simp add: double_numeral)
  then show ?thesis
    by (simp only: double_7_percent double_7_percent_of_150) (simp add: py_round_def)
qed

text \<open>Above 2 to the power 53 only every second integer is a double.\<close>

lemma double_odd_large: "double 9007199254740995 = 9007199254740996"
  using double_large [of 53 9007199254740995] by (simp add: py_round_def)

lemma double_even_large: "double 9007199254740996 = 9007199254740996"
  using double_large [of 53 9007199254740996] by (simp add: py_round_def)

section \<open>Properties of the rating update\<close>

lemmas rating_eval = update_rating_def adjusted_change_def raw_change_def expected_score_def
  adjust_opponent_rating_def RATING_PROTECTION_THRESHOLDS_def le_threshold_def K_FACTOR_def
  RATING_MIN_def RATING_MAX_def py_round_def Let_def


text \<open>
  Claim C1. Every call of the rating update on a numeric opponent rating returns, and
  the new rating it returns lies between \<open>RATING_MIN\<close> = 100 and \<open>RATING_MAX\<close> = 2999,
  whatever the current rating, the outcome, the opponent rating and the multiplier.
\<close>

theorem update_rating_bounds:
  "\<exists>new_rating change.
      update_rating curr_rating score (Some opp) multiplier = Inr (new_rating, change)
      \<and> RATING_MIN \<le> new_rating \<and> new_rating \<le> RATING_MAX
      \<and> RATING_MIN = 100 \<and> RATING_MAX = 2999"
  by (simp add: update_rating_def Let_def RATING_MIN_def RATING_MAX_def)

text \<open>
  At rating 2990 a perfect win against an equal opponent would lead to 3012; the result
  is capped at 2999.
\<close>

theorem update_rating_bounds_witness:
  "update_rating 2990 1 (Some 2990) (3 / 2) = Inr (2999, 22)
   \<and> RATING_MIN \<le> 2999 \<and> 2999 \<le> RATING_MAX"
  using update_rating_bounds [of 2990 1 2990 "3 / 2"]
  by (simp add: rating_eval)

text \<open>
  Claim C2, as the specification states it: multiplier 1.0, current rating 100, opponent
  100, a win; protection +21, total delta 37, new rating 137. The table gives the band up
  to 150 the adjustment 34, so the example does not hold of the code.
\<close>

theorem update_rating_example_counterexample:
  "protection_adjustment RATING_PROTECTION_THRESHOLDS 100 \<noteq> 21
   \<and> adjusted_change 100 1 100 1 \<noteq> 37
   \<and> update_rating 100 1 (Some 100) 1 \<noteq> Inr (137, 37)"
  by (simp add: rating_eval)

text \<open>
  Claim C2, amended. With multiplier 1.0, K = 32, current rating 100, opponent 100 and a
  win, the expected score is 0.5, the raw delta 16, the protection adjustment +34, the
  total delta 50 and the new rating 150.
\<close>

theorem update_rating_example:
  "K_FACTOR = 32
   \<and> expected_score 100 100 = 1 / 2
   \<and> raw_change 100 1 100 1 = 16
   \<and> protection_adjustment RATING_PROTECTION_THRESHOLDS 100 = 34
   \<and> adjusted_change 100 1 100 1 = 50
   \<and> update_rating 100 1 (Some 100) 1 = Inr (150, 50)"
  by (simp add: rating_eval)



text \<open>
  Claim C5. When the current rating equals \<open>RATING_MIN\<close> and the delta, after the
  protection adjustment and the loss cap, is negative, the update returns
  \<open>(RATING_MIN, 0)\<close>: the rating is unchanged and the reported delta is zero.
\<close>

theorem update_rating_floor:
  "curr_rating = RATING_MIN \<Longrightarrow> adjusted_change curr_rating score opp multiplier < 0
   \<Longrightarrow> update_rating curr_rating score (Some opp) multiplier = Inr (RATING_MIN, 0)"
  by (simp add: update_rating_def Let_def)

text \<open>
  A perfect-win loss at rating 100 against a reference rating of -300: the expected score
  is 10/11, the raw delta -480/11, and with the adjustment 34 the delta is negative.
\<close>

theorem update_rating_floor_witness:
  "(100 :: int) = RATING_MIN \<and> adjusted_change 100 0 (- 300) (3 / 2) < 0
   \<and> update_rating 100 0 (Some (- 300)) (3 / 2) = Inr (100, 0)"
proof -
  have a: "(100 :: int) = RATING_MIN"
    by (simp add: RATING_MIN_def)
  have b: "adjusted_change 100 0 (- 300) (3 / 2) < 0"
    by (simp add: rating_eval powr_minus_divide)
  from a b update_rating_floor [OF a b] show ?thesis
    by (simp add: RATING_MIN_def)
qed

section \<open>Properties of the rank recomputation\<close>

lemmas rank_eval = update_player_ranks_def rank_step_def rank_order_at_def rank_order_get_def
  get_computed_rank_def RANK_THRESHOLDS_def RANK_ORDER_def HIDDEN_RANK_def SPECIAL_IM_def
  Let_def

lemma first_rank_known: "first_rank RANK_THRESHOLDS score \<in> fst ` set RANK_ORDER"
  by (simp add: RANK_THRESHOLDS_def RANK_ORDER_def)

lemma get_computed_rank_known: "map_of RANK_ORDER (get_computed_rank score) \<noteq> None"
  unfolding get_computed_rank_def map_of_eq_None_iff using first_rank_known by simp

lemma rank_order_at_computed:
  "rank_order_at (get_computed_rank score) = rank_order_get (get_computed_rank score) dflt"
  using get_computed_rank_known [of score]
  by (auto simp: rank_order_at_def rank_order_get_def)

lemma rank_step_order:
  "rank_order_get current 1
     \<le> rank_order_get (rank_step current (get_computed_rank score)) 1"
  by (simp add: rank_step_def rank_order_at_computed [of score 1])

lemma rank_step_sentinel:
  "current = HIDDEN_RANK \<or> current = SPECIAL_IM \<Longrightarrow> rank_step current new_val = current"
  by (auto simp: rank_step_def)

lemma recompute_step:
  "rank_order_get (rank_o rec) 1 \<le> rank_order_get (rank_o (update_player_ranks rec)) 1
   \<and> rank_order_get (rank_d rec) 1 \<le> rank_order_get (rank_d (update_player_ranks rec)) 1
   \<and> rank_order_get (rank_a rec) 1 \<le> rank_order_get (rank_a (update_player_ranks rec)) 1"
  by (simp add: update_player_ranks_def Let_def rank_step_order del: One_nat_def)

lemma recompute_step_sentinel:
  "(rank_o rec = HIDDEN_RANK \<or> rank_o rec = SPECIAL_IM
      \<longrightarrow> rank_o (update_player_ranks rec) = rank_o rec)
   \<and> (rank_d rec = HIDDEN_RANK \<or> rank_d rec = SPECIAL_IM
      \<longrightarrow> rank_d (update_player_ranks rec) = rank_d rec)
   \<and> (rank_a rec = HIDDEN_RANK \<or> rank_a rec = SPECIAL_IM
      \<longrightarrow> rank_a (update_player_ranks rec) = rank_a rec)"
  by (simp add: update_player_ranks_def Let_def rank_step_sentinel)

text \<open>
  Claim C3. Take any record and any sequence of rank recomputations, the three ratings
  changing at will before each one. In each of the three categories the tier after the
  sequence is not below the tier before it, in the order that the recomputation compares
  by (\<^verbatim>\<open>RANK_ORDER.get(tier, 1)\<close>); and a tier that is one of the two sentinels is
  unchanged.
\<close>

theorem ranks_never_regress:
  "(let after = fold (\<lambda>(off, deff, av) rec.
                         update_player_ranks
                           (rec\<lparr>offense := off, defense := deff, avg := av\<rparr>))
                     ratings rec
    in rank_order_get (rank_o rec) 1 \<le> rank_order_get (rank_o after) 1
       \<and> rank_order_get (rank_d rec) 1 \<le> rank_order_get (rank_d after) 1
       \<and> rank_order_get (rank_a rec) 1 \<le> rank_order_get (rank_a after) 1
       \<and> (rank_o rec = HIDDEN_RANK \<or> rank_o rec = SPECIAL_IM \<longrightarrow> rank_o after = rank_o rec)
       \<and> (rank_d rec = HIDDEN_RANK \<or> rank_d rec = SPECIAL_IM \<longrightarrow> rank_d after = rank_d rec)
       \<and> (rank_a rec = HIDDEN_RANK \<or> rank_a rec = SPECIAL_IM \<longrightarrow> rank_a after = rank_a rec))"
proof (induction ratings arbitrary: rec)
  case Nil
  show ?case
    by simp
next
  case (Cons r ratings)
  obtain off deff av where r: "r = (off, deff, av)"
    by (cases r) auto
  let ?rec1 = "rec\<lparr>offense := off, defense := deff, avg := av\<rparr>"
  let ?rec2 = "update_player_ranks ?rec1"
  note step = recompute_step [of ?rec1] recompute_step_sentinel [of ?rec1]
  note ih = Cons.IH [of ?rec2]
  from step ih show ?case
    unfolding r Let_def
    by (simp only: fold_Cons comp_apply prod.case) (auto intro: order_trans)
qed

text \<open>
  A record with defense tier hidden and offense tier gold, recomputed at ratings
  (100, 2999, 100) and then at (2999, 100, 300): the defense tier stays hidden, the
  offense tier stays gold in the first step and becomes ultra in the second.
\<close>

theorem ranks_never_regress_witness:
  "rank_d \<lparr>display = ''Ann'', offense = 500, defense = 500, played = 3, wins = 1, avg = 500,
            rank_d = ''lz'', rank_o = ''gold'', rank_a = ''iron''\<rparr> = HIDDEN_RANK
   \<and> rank_d (fold (\<lambda>(off, deff, av) rec.
                       update_player_ranks
                         (rec\<lparr>offense := off, defense := deff, avg := av\<rparr>))
                [(100, 2999, 100), (2999, 100, 300)]
                \<lparr>display = ''Ann'', offense = 500, defense = 500, played = 3, wins = 1,
                 avg = 500, rank_d = ''lz'', rank_o = ''gold'', rank_a = ''iron''\<rparr>) = ''lz''
   \<and> rank_o (fold (\<lambda>(off, deff, av) rec.
                       update_player_ranks
                         (rec\<lparr>offense := off, defense := deff, avg := av\<rparr>))
                [(100, 2999, 100), (2999, 100, 300)]
                \<lparr>display = ''Ann'', offense = 500, defense = 500, played = 3, wins = 1,
                 avg = 500, rank_d = ''lz'', rank_o = ''gold'', rank_a = ''iron''\<rparr>) = ''ultra''
   \<and> rank_order_get ''gold'' 1 \<le> rank_order_get ''ultra'' 1"
  using ranks_never_regress [of "[(100, 2999, 100), (2999, 100, 300)]"
          "\<lparr>display = ''Ann'', offense = 500, defense = 500, played = 3,
            wins = 1, avg = 500, rank_d = ''lz'', rank_o = ''gold'', rank_a = ''iron''\<rparr>"]
  by (simp add: rank_eval)

section \<open>Evaluating strings and matches\<close>

lemmas string_eval = canonicalize_def lower_def lower_char_def isalnum_def ascii_uppercase_def
  ascii_lowercase_def digits_def strip_def isspace_def

lemmas game_eval = process_game_def process_teams_def opponent_averages_def
  show_expected_rates_def apply_rating_changes_def get_average_rating_def
  calculate_expected_win_rate_def get_or_create_player_def new_player_def save_data_def
  update_player_avg_def parse_team_def roster_def WIN_TYPE_MULTIPLIERS_def

section \<open>Properties of the merge\<close>



section \<open>Commands that are refused\<close>

text \<open>
  Claim C7. A match command without a match of the pattern, or whose win-type token, in
  lower case, is not one of win, smallwin, closewin, bigwin, perfectwin, is refused with
  one printed line and the registry is unchanged: no record is created or changed. The
  five tokens have the multipliers 1.0, 0.75, 0.5, 1.25 and 1.5, and the table has no
  other key.
\<close>

theorem process_game_rejects:
  "process_game None players = Inr ([''Command format not recognized.''], players)
   \<and> (lower group2 \<notin> set [''win'', ''smallwin'', ''closewin'', ''bigwin'', ''perfectwin'']
        \<longrightarrow> process_game (Some (team1_str, group2, team2_str)) players
              = Inr ([''Invalid win type.''], players))
   \<and> map_of WIN_TYPE_MULTIPLIERS ''win'' = Some 1
   \<and> map_of WIN_TYPE_MULTIPLIERS ''smallwin'' = Some (3 / 4)
   \<and> map_of WIN_TYPE_MULTIPLIERS ''closewin'' = Some (1 / 2)
   \<and> map_of WIN_TYPE_MULTIPLIERS ''bigwin'' = Some (5 / 4)
   \<and> map_of WIN_TYPE_MULTIPLIERS ''perfectwin'' = Some (3 / 2)
   \<and> dom (map_of WIN_TYPE_MULTIPLIERS)
        = set [''win'', ''smallwin'', ''closewin'', ''bigwin'', ''perfectwin'']"
proof -
  have d: "dom (map_of WIN_TYPE_MULTIPLIERS)
        = set [''win'', ''smallwin'', ''closewin'', ''bigwin'', ''perfectwin'']"
    by (simp add: WIN_TYPE_MULTIPLIERS_def dom_map_of_conv_image_fst)
  have "lower group2 \<notin> set [''win'', ''smallwin'', ''closewin'', ''bigwin'', ''perfectwin'']
       \<Longrightarrow> map_of WIN_TYPE_MULTIPLIERS (lower group2) = None"
    using d by (metis domIff)
  then show ?thesis
    using d by (simp add: process_game_def Let_def) (simp add: WIN_TYPE_MULTIPLIERS_def)
qed

theorem process_game_rejects_witness:
  "lower ''Draw'' \<notin> set [''win'', ''smallwin'', ''closewin'', ''bigwin'', ''perfectwin'']
   \<and> process_game (Some (''alice'', ''Draw'', ''bob'')) Map.empty
       = Inr ([''Invalid win type.''], Map.empty)"
proof -
  have a: "lower ''Draw'' \<notin> set [''win'', ''smallwin'', ''closewin'', ''bigwin'', ''perfectwin'']"
    by (simp add: string_eval)
  from a process_game_rejects [of Map.empty "''Draw''" "''alice''" "''bob''"] show ?thesis
    by blast
qed

section \<open>Combining a player with itself\<close>

text \<open>
  Claim C9. When the two names of a combine command have the same canonical key and the
  key is in the registry, the command merges the record with itself: the record that
  \<^verbatim>\<open>merge_record\<close> stores under the key has twice the games and twice the wins. Then
  the key is deleted, so the registry the command leaves has no record under the key and
  is the registry before the command without that key.
\<close>

theorem combine_with_itself:
  assumes "canonicalize (strip group1) = key" and "canonicalize (strip group2) = key"
    and "players key = Some rec"
  shows "\<exists>merged doubled report.
      merge_record key (display rec) (offense rec) (defense rec) (played rec) (wins rec)
          None None None players = Inr merged
      \<and> merged key = Some doubled
      \<and> played doubled = 2 * played rec
      \<and> wins doubled = 2 * wins rec
      \<and> process_combine_command (Some (group1, group2)) players
          = Inr (report, merged(key := None))
      \<and> merged(key := None) = players(key := None)
      \<and> (players(key := None)) key = None"
  using assms by (simp add: process_combine_command_def merge_record_def merged_record_def Let_def split: prod.splits)

theorem combine_with_itself_witness:
  "canonicalize (strip ''Bob'') = ''bob'' \<and> canonicalize (strip '' b.o.b '') = ''bob''
   \<and> (case process_combine_command (Some (''Bob'', '' b.o.b ''))
             [''bob'' \<mapsto> \<lparr>display = ''Bob'', offense = 200, defense = 200,
                played = 10, wins = 5, avg = 200, rank_d = ''copper'', rank_o = ''copper'',
                rank_a = ''copper''\<rparr>] of
         Inl err \<Rightarrow> False
       | Inr (report, players') \<Rightarrow> players' ''bob'' = None)"
proof -
  have a: "canonicalize (strip ''Bob'') = ''bob''"
    by (simp add: string_eval)
  have b: "canonicalize (strip '' b.o.b '') = ''bob''"
    by (simp add: string_eval)
  have c: "[''bob'' \<mapsto> \<lparr>display = ''Bob'', offense = 200, defense = 200,
                played = 10, wins = 5, avg = 200, rank_d = ''copper'', rank_o = ''copper'',
                rank_a = ''copper''\<rparr>] ''bob'' = Some \<lparr>display = ''Bob'', offense = 200, defense = 200,
                played = 10, wins = 5, avg = 200, rank_d = ''copper'', rank_o = ''copper'',
                rank_a = ''copper''\<rparr>"
    by simp
  from a b c combine_with_itself [of "''Bob''" "''bob''" "'' b.o.b ''" "[''bob'' \<mapsto> \<lparr>display = ''Bob'', offense = 200, defense = 200,
                played = 10, wins = 5, avg = 200, rank_d = ''copper'', rank_o = ''copper'',
                rank_a = ''copper''\<rparr>]"] show ?thesis
    by auto
qed

section \<open>The counters stay in range\<close>

lemma registry_ok_upd:
  "registry_ok players \<Longrightarrow> counts_ok rec \<Longrightarrow> registry_ok (players(key \<mapsto> rec))"
  by (simp add: registry_ok_def)

lemma registry_ok_del: "registry_ok players \<Longrightarrow> registry_ok (players(key := None))"
  by (simp add: registry_ok_def)

lemma registry_ok_lookup: "registry_ok players \<Longrightarrow> players key = Some rec \<Longrightarrow> counts_ok rec"
  by (simp add: registry_ok_def)

lemma counts_ok_saved: "counts_ok (update_player_ranks (update_player_avg data)) = counts_ok data"
  by (simp add: counts_ok_def update_player_ranks_def update_player_avg_def Let_def)

lemma save_data_ok: "registry_ok players \<Longrightarrow> registry_ok (save_data players)"
  by (auto simp: registry_ok_def save_data_def counts_ok_saved)

lemma counts_ok_new_player: "counts_ok (new_player name key)"
  by (simp add: counts_ok_def new_player_def Let_def)

lemma get_or_create_player_ok:
  assumes "registry_ok players" and "get_or_create_player name players = (rec, players')"
  shows "registry_ok players' \<and> counts_ok rec"
  using assms
  by (auto simp: get_or_create_player_def Let_def counts_ok_new_player
           split: option.splits intro: registry_ok_upd registry_ok_lookup)

lemma create_players_ok: "registry_ok players \<Longrightarrow> registry_ok (create_players names players)"
proof (induction names arbitrary: players)
  case Nil
  then show ?case by simp
next
  case (Cons name names)
  then show ?case
    using get_or_create_player_ok [of players name]
    by (cases "get_or_create_player name players") auto
qed

lemma total_rating_ok:
  "registry_ok players \<Longrightarrow> total_rating role names players = (tot, players')
   \<Longrightarrow> registry_ok players'"
proof (induction names arbitrary: players tot)
  case Nil
  then show ?case by simp
next
  case (Cons name names)
  obtain rec ps1 where g: "get_or_create_player name players = (rec, ps1)"
    by (cases "get_or_create_player name players")
  obtain t ps2 where t: "total_rating role names ps1 = (t, ps2)"
    by (cases "total_rating role names ps1")
  from Cons.prems g t have "players' = ps2"
    by simp
  moreover have "registry_ok ps1"
    using get_or_create_player_ok [OF Cons.prems(1) g] by simp
  ultimately show ?case
    using Cons.IH t by blast
qed

lemma get_average_rating_ok:
  "registry_ok players \<Longrightarrow> get_average_rating names role players = (opp, players')
   \<Longrightarrow> registry_ok players'"
  by (auto simp: get_average_rating_def Let_def split: if_splits prod.splits
           dest: total_rating_ok)

lemma expected_rates_ok:
  "registry_ok players \<Longrightarrow> expected_rates role opp names players = Inr (rates, players')
   \<Longrightarrow> registry_ok players'"
proof (induction names arbitrary: players rates)
  case Nil
  then show ?case by simp
next
  case (Cons name names)
  obtain rec ps1 where g: "get_or_create_player name players = (rec, ps1)"
    by (cases "get_or_create_player name players")
  have ok1: "registry_ok ps1"
    using get_or_create_player_ok [OF Cons.prems(1) g] by simp
  from Cons.prems(2) g obtain rates' where "expected_rates role opp names ps1 = Inr (rates', players')"
    by (auto split: sum.splits)
  with Cons.IH ok1 show ?case
    by blast
qed

lemma update_team_ok:
  "registry_ok players \<Longrightarrow> update_team role score opp multiplier names players = Inr players'
   \<Longrightarrow> registry_ok players'"
proof (induction names arbitrary: players)
  case Nil
  then show ?case by simp
next
  case (Cons name names)
  obtain rec ps1 where g: "get_or_create_player name players = (rec, ps1)"
    by (cases "get_or_create_player name players")
  have ok1: "registry_ok ps1" and okr: "counts_ok rec"
    using get_or_create_player_ok [OF Cons.prems(1) g] by simp_all
  from Cons.prems(2) g obtain new_rating change where
    u: "update_team role score opp multiplier names
          (ps1(canonicalize name \<mapsto>
             (set_rating role new_rating rec)
               \<lparr>played := played rec + 1,
                wins := (if score = 1 then wins rec + 1 else wins rec)\<rparr>)) = Inr players'"
    by (auto split: sum.splits)
  have "counts_ok ((set_rating role new_rating rec)
               \<lparr>played := played rec + 1,
                wins := (if score = 1 then wins rec + 1 else wins rec)\<rparr>)"
    using okr by (cases role) (auto simp: counts_ok_def)
  with ok1 have "registry_ok (ps1(canonicalize name \<mapsto>
             (set_rating role new_rating rec)
               \<lparr>played := played rec + 1,
                wins := (if score = 1 then wins rec + 1 else wins rec)\<rparr>))"
    by (rule registry_ok_upd)
  with Cons.IH u show ?case
    by blast
qed

lemma opponent_averages_ok:
  assumes "registry_ok players" and "opponent_averages team1 team2 players = (opps, players')"
  shows "registry_ok players'"
proof -
  obtain team1_off team1_def where t1: "team1 = (team1_off, team1_def)"
    by (cases team1)
  obtain team2_off team2_def where t2: "team2 = (team2_off, team2_def)"
    by (cases team2)
  obtain o1 ps1 where g1: "(if team2_def \<noteq> [] then get_average_rating team2_def Defense players
             else get_average_rating team2_off Offense players) = (o1, ps1)"
    by (cases "(if team2_def \<noteq> [] then get_average_rating team2_def Defense players
             else get_average_rating team2_off Offense players)")
  have ok1: "registry_ok ps1"
    using g1 assms(1) by (auto split: if_splits dest: get_average_rating_ok)
  obtain o2 ps2 where g2: "(if team2_off \<noteq> [] then get_average_rating team2_off Offense ps1
             else get_average_rating team2_def Defense ps1) = (o2, ps2)"
    by (cases "(if team2_off \<noteq> [] then get_average_rating team2_off Offense ps1
             else get_average_rating team2_def Defense ps1)")
  have ok2: "registry_ok ps2"
    using g2 ok1 by (auto split: if_splits dest: get_average_rating_ok)
  obtain o3 ps3 where g3: "(if team1_def \<noteq> [] then get_average_rating team1_def Defense ps2
             else get_average_rating team1_off Offense ps2) = (o3, ps3)"
    by (cases "(if team1_def \<noteq> [] then get_average_rating team1_def Defense ps2
             else get_average_rating team1_off Offense ps2)")
  have ok3: "registry_ok ps3"
    using g3 ok2 by (auto split: if_splits dest: get_average_rating_ok)
  obtain o4 ps4 where g4: "(if team1_off \<noteq> [] then get_average_rating team1_off Offense ps3
             else get_average_rating team1_def Defense ps3) = (o4, ps4)"
    by (cases "(if team1_off \<noteq> [] then get_average_rating team1_off Offense ps3
             else get_average_rating team1_def Defense ps3)")
  have ok4: "registry_ok ps4"
    using g4 ok3 by (auto split: if_splits dest: get_average_rating_ok)
  have "players' = ps4"
    using assms(2) unfolding opponent_averages_def t1 t2 prod.case Let_def g1 g2 g3 g4
    by simp
  with ok4 show ?thesis
    by simp
qed

lemma show_expected_rates_ok:
  assumes "registry_ok players" and "show_expected_rates opps team1 team2 players = Inr players'"
  shows "registry_ok players'"
proof -
  obtain o1 o2 o3 o4 where o: "opps = (o1, o2, o3, o4)"
    by (cases opps) auto
  obtain team1_off team1_def where t1: "team1 = (team1_off, team1_def)"
    by (cases team1)
  obtain team2_off team2_def where t2: "team2 = (team2_off, team2_def)"
    by (cases team2)
  from assms(2) obtain r1 ps1 r2 ps2 r3 ps3 r4 where
    "expected_rates Offense o1 team1_off players = Inr (r1, ps1)"
    "expected_rates Defense o2 team1_def ps1 = Inr (r2, ps2)"
    "expected_rates Offense o3 team2_off ps2 = Inr (r3, ps3)"
    "expected_rates Defense o4 team2_def ps3 = Inr (r4, players')"
    unfolding show_expected_rates_def o t1 t2 prod.case Let_def
    by (auto split: sum.splits)
  with assms(1) show ?thesis
    by (blast dest: expected_rates_ok)
qed

lemma apply_rating_changes_ok:
  assumes "registry_ok players"
    and "apply_rating_changes base_multiplier opps team1 team2 players = Inr players'"
  shows "registry_ok players'"
proof -
  obtain o1 o2 o3 o4 where o: "opps = (o1, o2, o3, o4)"
    by (cases opps) auto
  obtain team1_off team1_def where t1: "team1 = (team1_off, team1_def)"
    by (cases team1)
  obtain team2_off team2_def where t2: "team2 = (team2_off, team2_def)"
    by (cases team2)
  from assms(2) obtain ps1 ps2 ps3 where
    "update_team Offense 1 o1 base_multiplier team1_off players = Inr ps1"
    "update_team Defense 1 o2 base_multiplier team1_def ps1 = Inr ps2"
    "update_team Offense 0 o3 base_multiplier team2_off ps2 = Inr ps3"
    "update_team Defense 0 o4 base_multiplier team2_def ps3 = Inr players'"
    unfolding apply_rating_changes_def o t1 t2 prod.case Let_def
    by (auto split: sum.splits)
  with assms(1) show ?thesis
    by (blast dest: update_team_ok)
qed

lemma process_teams_ok:
  assumes "registry_ok players"
    and "process_teams base_multiplier team1 team2 players = Inr players'"
  shows "registry_ok players'"
proof -
  let ?ps0 = "create_players (fst team1 @ snd team1 @ fst team2 @ snd team2) players"
  have ok0: "registry_ok ?ps0"
    using assms(1) by (rule create_players_ok)
  obtain opps ps1 where oa: "opponent_averages team1 team2 ?ps0 = (opps, ps1)"
    by (cases "opponent_averages team1 team2 ?ps0")
  have ok1: "registry_ok ps1"
    using ok0 oa by (rule opponent_averages_ok)
  from assms(2) oa obtain ps2 ps3 where
    "show_expected_rates opps team1 team2 ps1 = Inr ps2"
    "apply_rating_changes base_multiplier opps team1 team2 ps2 = Inr ps3"
    "players' = save_data ps3"
    unfolding process_teams_def Let_def
    by (auto split: sum.splits)
  with ok1 show ?thesis
    by (auto dest: show_expected_rates_ok apply_rating_changes_ok intro: save_data_ok)
qed

lemma process_game_ok:
  assumes "registry_ok players" and "process_game m players = Inr (report, players')"
  shows "registry_ok players'"
  using assms
  by (auto simp: process_game_def Let_def split: option.splits sum.splits
           dest: process_teams_ok)


lemma merged_record_counts:
  assumes "counts_ok old" and "0 \<le> n_wins" and "n_wins \<le> n_played"
  shows "counts_ok (merged_record old off deff n_played n_wins arg_rank_d arg_rank_o arg_rank_a)"
  using assms by (simp add: counts_ok_def merged_record_def Let_def split: prod.splits)

lemma merge_record_ok:
  assumes "registry_ok players" and "0 \<le> n_wins" and "n_wins \<le> n_played"
    and "merge_record key new_display off deff n_played n_wins arg_rank_d arg_rank_o arg_rank_a
           players = Inr players'"
  shows "registry_ok players'"
proof (cases "players key")
  case None
  with assms(4) show ?thesis
    by (simp add: merge_record_def)
next
  case (Some old)
  then have "counts_ok old"
    using assms(1) by (simp add: registry_ok_def)
  then have "counts_ok (merged_record old off deff n_played n_wins arg_rank_d arg_rank_o
                          arg_rank_a)"
    using assms(2,3) by (rule merged_record_counts)
  with assms(1) have "registry_ok (players(key \<mapsto>
      merged_record old off deff n_played n_wins arg_rank_d arg_rank_o arg_rank_a))"
    by (rule registry_ok_upd)
  with assms(4) Some show ?thesis
    by (simp add: merge_record_def)
qed

lemma loaded_wins_bounds:
  assumes "0 \<le> win_rate" and "win_rate \<le> 100" and "0 < n_played" and "n_played \<le> 2 ^ 53"
  shows "0 \<le> py_round (double (double (of_int win_rate / 100) * double (of_int n_played)))
         \<and> py_round (double (double (of_int win_rate / 100) * double (of_int n_played)))
             \<le> n_played"
proof -
  let ?r = "double (real_of_int win_rate / 100)"
  let ?x = "double (?r * double (of_int n_played))"
  have p: "double (of_int n_played) = of_int n_played"
    using assms(3,4) by (intro double_of_int) simp_all
  have "0 \<le> real_of_int win_rate / 100" and "real_of_int win_rate / 100 \<le> of_int 1"
    using assms(1,2) by simp_all
  then have r: "0 \<le> ?r" "?r \<le> 1"
    using double_of_int_le [of "real_of_int win_rate / 100" 1] by simp_all
  have pos: "0 < real_of_int n_played"
    using assms(3) by simp
  have lo: "0 \<le> ?r * real_of_int n_played"
    using r(1) pos by simp
  have hi: "?r * real_of_int n_played \<le> of_int n_played"
    using r(2) pos by (simp add: mult_left_le_one_le)
  have x: "0 \<le> ?x" "?x \<le> of_int n_played"
    using double_of_int_le [OF lo hi assms(4)] unfolding p by simp_all
  have "py_round (real_of_int 0) \<le> py_round ?x"
    using x(1) by (intro py_round_mono) simp
  moreover have "py_round ?x \<le> py_round (real_of_int n_played)"
    using x(2) by (rule py_round_mono)
  ultimately show ?thesis
    by (simp only: py_round_of_int)
qed

lemma load_line_ok:
  assumes "registry_ok players" and "entry_ok e"
  shows "\<exists>players'. load_line e players = Inr players' \<and> registry_ok players'"
proof -
  let ?n_played = "e_played e"
  let ?n_wins = "if ?n_played > 0
                 then py_round (double (double (of_int (e_win_rate e) / 100)
                                        * double (of_int ?n_played)))
                 else 0"
  have w: "0 \<le> ?n_wins \<and> ?n_wins \<le> ?n_played"
    using assms(2) loaded_wins_bounds [of "e_win_rate e" ?n_played]
    by (auto simp: entry_ok_def)
  show ?thesis
  proof (cases "players (canonicalize (e_disp e))")
    case None
    with assms(1) w show ?thesis
      by (auto simp: load_line_def Let_def counts_ok_def intro!: registry_ok_upd)
  next
    case (Some old)
    then obtain players' where
      m: "merge_record (canonicalize (e_disp e)) (e_disp e) (e_off e) (e_deff e) ?n_played
            ?n_wins (part_opt (e_rest e) 1) (part_opt (e_rest e) 2) (part_opt (e_rest e) 3)
            players = Inr players'"
      by (simp add: merge_record_def)
    have "registry_ok players'"
      using assms(1) w m by (blast intro: merge_record_ok)
    with Some m show ?thesis
      by (simp add: load_line_def Let_def)
  qed
qed

lemma load_data_ok:
  "registry_ok players \<Longrightarrow> list_all entry_ok entries
   \<Longrightarrow> \<exists>players'. load_data entries players = Inr players' \<and> registry_ok players'"
proof (induction entries arbitrary: players)
  case Nil
  then show ?case
    by simp
next
  case (Cons e entries)
  from Cons.prems obtain ps1 where l: "load_line e players = Inr ps1" and ok: "registry_ok ps1"
    using load_line_ok [of players e] by auto
  from Cons.IH [OF ok] Cons.prems(2) l show ?case
    by simp
qed

lemma process_combine_command_ok:
  assumes "registry_ok players"
    and "process_combine_command c players = Inr (report, players')"
  shows "registry_ok players'"
proof (cases c)
  case None
  with assms show ?thesis
    by (simp add: process_combine_command_def)
next
  case (Some groups)
  obtain group1 group2 where g: "groups = (group1, group2)"
    by (cases groups)
  let ?src_key = "canonicalize (strip group1)"
  let ?dest_key = "canonicalize (strip group2)"
  show ?thesis
  proof (cases "players ?src_key")
    case None
    with assms Some g show ?thesis
      by (simp add: process_combine_command_def Let_def)
  next
    case src: (Some src)
    show ?thesis
    proof (cases "players ?dest_key")
      case None
      with assms Some g src show ?thesis
        by (simp add: process_combine_command_def Let_def)
    next
      case dest: (Some dest)
      have "counts_ok src"
        using assms(1) src by (simp add: registry_ok_def)
      then have w: "0 \<le> wins src" "wins src \<le> played src"
        by (simp_all add: counts_ok_def)
      from assms(2) Some g src dest obtain merged where
        m: "merge_record ?dest_key (display dest) (offense src) (defense src) (played src)
              (wins src) None None None players = Inr merged"
        and p: "players' = merged(?src_key := None)"
        by (auto simp: process_combine_command_def Let_def split: sum.splits option.splits)
      have "registry_ok merged"
        using assms(1) w m by (rule merge_record_ok)
      then show ?thesis
        unfolding p by (rule registry_ok_del)
    qed
  qed
qed

lemma canon_bob: "canonicalize ''Bob'' = ''bob''"
  by (simp add: string_eval)

lemma load_negative:
  "load_data [\<lparr>e_disp = ''Bob'', e_off = 100, e_deff = 100, e_played = - 3,
                e_win_rate = 0, e_rest = []\<rparr>] Map.empty
   = Inr [''bob'' \<mapsto> \<lparr>display = ''Bob'', offense = 100, defense = 100, played = - 3,
                         wins = 0, avg = 100, rank_d = ''iron'', rank_o = ''iron'',
                         rank_a = ''iron''\<rparr>]"
  by (simp add: load_line_def part_opt_def canon_bob Let_def if_else_def py_round_def
        get_computed_rank_def RANK_THRESHOLDS_def)

lemma process_combine_command_result:
  assumes "players (canonicalize (strip group1)) = Some src"
    and "players (canonicalize (strip group2)) = Some dest"
  shows "\<exists>report. process_combine_command (Some (group1, group2)) players
           = Inr (report,
                  (players(canonicalize (strip group2) \<mapsto>
                      merged_record dest (offense src) (defense src) (played src) (wins src)
                        None None None))
                  (canonicalize (strip group1) := None))"
  using assms by (simp add: process_combine_command_def merge_record_def Let_def)

lemma canon_john: "canonicalize ''John Smith'' = ''johnsmith''"
  by (simp add: string_eval)

lemma canon_john_smith: "canonicalize ''john-smith'' = ''johnsmith''"
  by (simp add: string_eval)

lemma load_first:
  "load_line \<lparr>e_disp = ''John Smith'', e_off = 200, e_deff = 200, e_played = 10,
              e_win_rate = 50, e_rest = []\<rparr> Map.empty
   = Inr [''johnsmith'' \<mapsto> \<lparr>display = ''John Smith'', offense = 200, defense = 200,
            played = 10, wins = 5, avg = 200, rank_d = ''copper'', rank_o = ''copper'',
            rank_a = ''copper''\<rparr>]"
  by (simp add: load_line_def part_opt_def canon_john Let_def if_else_def double_half
        double_numeral py_round_numeral get_computed_rank_def RANK_THRESHOLDS_def)

lemma load_second:
  "load_line \<lparr>e_disp = ''john-smith'', e_off = 300, e_deff = 300, e_played = 5,
              e_win_rate = 0, e_rest = []\<rparr>
     [''johnsmith'' \<mapsto> \<lparr>display = ''John Smith'', offense = 200, defense = 200,
            played = 10, wins = 5, avg = 200, rank_d = ''copper'', rank_o = ''copper'',
            rank_a = ''copper''\<rparr>]
   = Inr [''johnsmith'' \<mapsto> \<lparr>display = ''John Smith'', offense = 233, defense = 233,
            played = 15, wins = 5, avg = 233, rank_d = ''copper'', rank_o = ''copper'',
            rank_a = ''copper''\<rparr>]"
  by (simp add: load_line_def part_opt_def canon_john_smith Let_def if_else_def py_round_def
        double_zero merge_record_def merged_record_def choose_rank_def rank_order_get_def
        RANK_ORDER_def HIDDEN_RANK_def SPECIAL_IM_def get_computed_rank_def
        RANK_THRESHOLDS_def)

lemma canon_al: "canonicalize ''Al'' = ''al''"
  by (simp add: string_eval)

lemma load_third:
  "load_line \<lparr>e_disp = ''Al'', e_off = 100, e_deff = 100, e_played = 150,
              e_win_rate = 7, e_rest = []\<rparr>
     [''johnsmith'' \<mapsto> \<lparr>display = ''John Smith'', offense = 233, defense = 233,
            played = 15, wins = 5, avg = 233, rank_d = ''copper'', rank_o = ''copper'',
            rank_a = ''copper''\<rparr>]
   = Inr [''johnsmith'' \<mapsto> \<lparr>display = ''John Smith'', offense = 233, defense = 233,
            played = 15, wins = 5, avg = 233, rank_d = ''copper'', rank_o = ''copper'',
            rank_a = ''copper''\<rparr>,
         ''al'' \<mapsto> \<lparr>display = ''Al'', offense = 100, defense = 100, played = 150,
            wins = 11, avg = 100, rank_d = ''iron'', rank_o = ''iron'',
            rank_a = ''iron''\<rparr>]"
  by (simp add: load_line_def part_opt_def canon_al Let_def if_else_def
        wins_7_percent_of_150 py_round_numeral get_computed_rank_def RANK_THRESHOLDS_def)

lemma load_example:
  "load_data
        [\<lparr>e_disp = ''John Smith'', e_off = 200, e_deff = 200, e_played = 10,
           e_win_rate = 50, e_rest = []\<rparr>,
         \<lparr>e_disp = ''john-smith'', e_off = 300, e_deff = 300, e_played = 5,
           e_win_rate = 0, e_rest = []\<rparr>,
         \<lparr>e_disp = ''Al'', e_off = 100, e_deff = 100, e_played = 150,
           e_win_rate = 7, e_rest = []\<rparr>] Map.empty
   = Inr [''johnsmith'' \<mapsto> \<lparr>display = ''John Smith'', offense = 233, defense = 233,
            played = 15, wins = 5, avg = 233, rank_d = ''copper'', rank_o = ''copper'',
            rank_a = ''copper''\<rparr>,
         ''al'' \<mapsto> \<lparr>display = ''Al'', offense = 100, defense = 100, played = 150,
            wins = 11, avg = 100, rank_d = ''iron'', rank_o = ''iron'',
            rank_a = ''iron''\<rparr>]"
  by (simp only: load_data.simps load_first load_second load_third sum.case)

lemma load_large:
  "load_data [\<lparr>e_disp = ''Bob'', e_off = 100, e_deff = 100,
                e_played = 9007199254740995, e_win_rate = 100, e_rest = []\<rparr>] Map.empty
   = Inr [''bob'' \<mapsto> \<lparr>display = ''Bob'', offense = 100, defense = 100,
                         played = 9007199254740995, wins = 9007199254740996, avg = 100,
                         rank_d = ''iron'', rank_o = ''iron'', rank_a = ''iron''\<rparr>]"
  by (simp add: load_line_def part_opt_def canon_bob Let_def if_else_def double_one
        double_odd_large double_even_large py_round_numeral get_computed_rank_def
        RANK_THRESHOLDS_def)

lemma match_example:
  "case process_game (Some (''alice'', ''win'', ''bob'')) Map.empty of
     Inl err \<Rightarrow> False
   | Inr (report, ps) \<Rightarrow>
       map_option (\<lambda>r. (offense r, played r, wins r)) (ps ''alice'') = Some (150, 1, 1)
       \<and> map_option (\<lambda>r. (offense r, played r, wins r)) (ps ''bob'') = Some (100, 1, 0)"
  by (simp add: game_eval string_eval rating_eval rank_eval)

lemma canon_bob_lower: "canonicalize (strip ''bob'') = ''bob''"
  by (simp add: string_eval)

lemma canon_bobby: "canonicalize (strip ''Bobby'') = ''bobby''"
  by (simp add: string_eval)

text \<open>
  Claim C8, as the specification states it: after loading a snapshot every record has
  counters that are not negative, with \<^verbatim>\<open>wins\<close> at most \<^verbatim>\<open>played\<close>. The loader takes the
  number of games as it is read. A line with -3 games, which the format admits (an
  integer, with a win percentage of 0), is loaded into a record with \<^verbatim>\<open>played\<close> = -3 and
  \<^verbatim>\<open>wins\<close> = 0. A line with 9007199254740995 games and a win percentage of 100 is loaded
  into a record with one win more than games: the number of games is odd and above 2 to
  the power 53, and its conversion to a double is the even number above it.
\<close>

theorem counts_invariant_counterexample:
  "\<not> isl (load_data [\<lparr>e_disp = ''Bob'', e_off = 100, e_deff = 100, e_played = - 3,
                       e_win_rate = 0, e_rest = []\<rparr>] Map.empty)
   \<and> map_option played
        (projr (load_data [\<lparr>e_disp = ''Bob'', e_off = 100, e_deff = 100, e_played = - 3,
                            e_win_rate = 0, e_rest = []\<rparr>] Map.empty) ''bob'') = Some (- 3)
   \<and> map_option wins
        (projr (load_data [\<lparr>e_disp = ''Bob'', e_off = 100, e_deff = 100, e_played = - 3,
                            e_win_rate = 0, e_rest = []\<rparr>] Map.empty) ''bob'') = Some 0
   \<and> \<not> isl (load_data [\<lparr>e_disp = ''Bob'', e_off = 100, e_deff = 100,
                          e_played = 9007199254740995, e_win_rate = 100, e_rest = []\<rparr>]
               Map.empty)
   \<and> map_option played
        (projr (load_data [\<lparr>e_disp = ''Bob'', e_off = 100, e_deff = 100,
                            e_played = 9007199254740995, e_win_rate = 100, e_rest = []\<rparr>]
                  Map.empty) ''bob'') = Some 9007199254740995
   \<and> map_option wins
        (projr (load_data [\<lparr>e_disp = ''Bob'', e_off = 100, e_deff = 100,
                            e_played = 9007199254740995, e_win_rate = 100, e_rest = []\<rparr>]
                  Map.empty) ''bob'') = Some 9007199254740996"
  unfolding load_negative load_large by simp

text \<open>
  Claim C8, amended. The empty registry has every counter in range. From a registry
  whose records have 0 \<le> wins \<le> played: loading lines whose number of games is not
  negative and at most 2 to the power 53 and whose win percentage is between 0 and 100
  returns such a registry; so does every match command that returns, every combine
  command, and every merge of a source with 0 \<le> wins \<le> games.
\<close>

theorem counts_invariant:
  assumes "registry_ok players"
  shows "registry_ok Map.empty
    \<and> (list_all entry_ok entries \<longrightarrow>
         (\<exists>loaded. load_data entries players = Inr loaded \<and> registry_ok loaded))
    \<and> (process_game m players = Inr (report, after_match) \<longrightarrow> registry_ok after_match)
    \<and> (process_combine_command c players = Inr (report', after_combine)
         \<longrightarrow> registry_ok after_combine)
    \<and> (0 \<le> n_wins \<and> n_wins \<le> n_played
         \<and> merge_record key new_display off deff n_played n_wins arg_rank_d arg_rank_o
             arg_rank_a players = Inr after_merge
         \<longrightarrow> registry_ok after_merge)"
proof -
  have "registry_ok Map.empty"
    by (simp add: registry_ok_def)
  moreover have "list_all entry_ok entries \<longrightarrow>
         (\<exists>loaded. load_data entries players = Inr loaded \<and> registry_ok loaded)"
    using assms load_data_ok by blast
  moreover have "process_game m players = Inr (report, after_match)
                   \<longrightarrow> registry_ok after_match"
    using assms process_game_ok by blast
  moreover have "process_combine_command c players = Inr (report', after_combine)
         \<longrightarrow> registry_ok after_combine"
    using assms process_combine_command_ok by blast
  moreover have "0 \<le> n_wins \<and> n_wins \<le> n_played
         \<and> merge_record key new_display off deff n_played n_wins arg_rank_d arg_rank_o
             arg_rank_a players = Inr after_merge
         \<longrightarrow> registry_ok after_merge"
    using assms merge_record_ok by blast
  ultimately show ?thesis
    by blast
qed

text \<open>
  An instance: the two lines of the specification's example and a line with 150 games
  and a win percentage of 7 (which gives 11 wins) are loaded into the empty registry, the
  match ``alice win bob'' is processed from the empty registry, and a registry of two
  records is combined and merged into.
\<close>

theorem counts_invariant_witness:
  "registry_ok Map.empty
   \<and> list_all entry_ok
        [\<lparr>e_disp = ''John Smith'', e_off = 200, e_deff = 200, e_played = 10,
           e_win_rate = 50, e_rest = []\<rparr>,
         \<lparr>e_disp = ''john-smith'', e_off = 300, e_deff = 300, e_played = 5,
           e_win_rate = 0, e_rest = []\<rparr>,
         \<lparr>e_disp = ''Al'', e_off = 100, e_deff = 100, e_played = 150,
           e_win_rate = 7, e_rest = []\<rparr>]
   \<and> registry_ok
        [''johnsmith'' \<mapsto> \<lparr>display = ''John Smith'', offense = 233, defense = 233,
            played = 15, wins = 5, avg = 233, rank_d = ''copper'', rank_o = ''copper'',
            rank_a = ''copper''\<rparr>,
         ''al'' \<mapsto> \<lparr>display = ''Al'', offense = 100, defense = 100, played = 150,
            wins = 11, avg = 100, rank_d = ''iron'', rank_o = ''iron'',
            rank_a = ''iron''\<rparr>]
   \<and> \<not> isl (process_game (Some (''alice'', ''win'', ''bob'')) Map.empty)
   \<and> registry_ok (snd (projr (process_game (Some (''alice'', ''win'', ''bob'')) Map.empty)))
   \<and> registry_ok
        [''bob'' \<mapsto> \<lparr>display = ''bob'', offense = 100, defense = 100, played = 2, wins = 1,
           avg = 100, rank_d = ''iron'', rank_o = ''iron'', rank_a = ''iron''\<rparr>,
         ''bobby'' \<mapsto> \<lparr>display = ''Bobby'', offense = 200, defense = 200, played = 10,
           wins = 5, avg = 200, rank_d = ''copper'', rank_o = ''copper'',
           rank_a = ''copper''\<rparr>]
   \<and> \<not> isl (process_combine_command (Some (''bob'', ''Bobby''))
        [''bob'' \<mapsto> \<lparr>display = ''bob'', offense = 100, defense = 100, played = 2, wins = 1,
           avg = 100, rank_d = ''iron'', rank_o = ''iron'', rank_a = ''iron''\<rparr>,
         ''bobby'' \<mapsto> \<lparr>display = ''Bobby'', offense = 200, defense = 200, played = 10,
           wins = 5, avg = 200, rank_d = ''copper'', rank_o = ''copper'',
           rank_a = ''copper''\<rparr>])
   \<and> registry_ok (snd (projr (process_combine_command (Some (''bob'', ''Bobby''))
        [''bob'' \<mapsto> \<lparr>display = ''bob'', offense = 100, defense = 100, played = 2, wins = 1,
           avg = 100, rank_d = ''iron'', rank_o = ''iron'', rank_a = ''iron''\<rparr>,
         ''bobby'' \<mapsto> \<lparr>display = ''Bobby'', offense = 200, defense = 200, played = 10,
           wins = 5, avg = 200, rank_d = ''copper'', rank_o = ''copper'',
           rank_a = ''copper''\<rparr>])))
   \<and> \<not> isl (merge_record ''bobby'' ''Bobby'' 300 300 5 2 None None None
        [''bob'' \<mapsto> \<lparr>display = ''bob'', offense = 100, defense = 100, played = 2, wins = 1,
           avg = 100, rank_d = ''iron'', rank_o = ''iron'', rank_a = ''iron''\<rparr>,
         ''bobby'' \<mapsto> \<lparr>display = ''Bobby'', offense = 200, defense = 200, played = 10,
           wins = 5, avg = 200, rank_d = ''copper'', rank_o = ''copper'',
           rank_a = ''copper''\<rparr>])
   \<and> registry_ok (projr (merge_record ''bobby'' ''Bobby'' 300 300 5 2 None None None
        [''bob'' \<mapsto> \<lparr>display = ''bob'', offense = 100, defense = 100, played = 2, wins = 1,
           avg = 100, rank_d = ''iron'', rank_o = ''iron'', rank_a = ''iron''\<rparr>,
         ''bobby'' \<mapsto> \<lparr>display = ''Bobby'', offense = 200, defense = 200, played = 10,
           wins = 5, avg = 200, rank_d = ''copper'', rank_o = ''copper'',
           rank_a = ''copper''\<rparr>]))"
proof -
  let ?entries = "[\<lparr>e_disp = ''John Smith'', e_off = 200, e_deff = 200, e_played = 10,
           e_win_rate = 50, e_rest = []\<rparr>,
         \<lparr>e_disp = ''john-smith'', e_off = 300, e_deff = 300, e_played = 5,
           e_win_rate = 0, e_rest = []\<rparr>,
         \<lparr>e_disp = ''Al'', e_off = 100, e_deff = 100, e_played = 150,
           e_win_rate = 7, e_rest = []\<rparr>]"
  let ?game = "process_game (Some (''alice'', ''win'', ''bob'')) Map.empty"
  let ?bob = "\<lparr>display = ''bob'', offense = 100, defense = 100, played = 2, wins = 1,
           avg = 100, rank_d = ''iron'', rank_o = ''iron'', rank_a = ''iron''\<rparr>"
  let ?bobby = "\<lparr>display = ''Bobby'', offense = 200, defense = 200, played = 10,
           wins = 5, avg = 200, rank_d = ''copper'', rank_o = ''copper'',
           rank_a = ''copper''\<rparr>"
  let ?ps = "[''bob'' \<mapsto> ?bob, ''bobby'' \<mapsto> ?bobby]"
  let ?combine = "process_combine_command (Some (''bob'', ''Bobby'')) ?ps"
  let ?merge = "merge_record ''bobby'' ''Bobby'' 300 300 5 2 None None None ?ps"
  have ok0: "registry_ok Map.empty"
    by (simp add: registry_ok_def)
  have ents: "list_all entry_ok ?entries"
    by (simp add: entry_ok_def)
  have game: "\<not> isl ?game"
    using match_example by (cases ?game) auto
  then have game_eq: "?game = Inr (fst (projr ?game), snd (projr ?game))"
    by (cases ?game) auto
  have loaded: "registry_ok
        [''johnsmith'' \<mapsto> \<lparr>display = ''John Smith'', offense = 233, defense = 233,
            played = 15, wins = 5, avg = 233, rank_d = ''copper'', rank_o = ''copper'',
            rank_a = ''copper''\<rparr>,
         ''al'' \<mapsto> \<lparr>display = ''Al'', offense = 100, defense = 100, played = 150,
            wins = 11, avg = 100, rank_d = ''iron'', rank_o = ''iron'',
            rank_a = ''iron''\<rparr>]"
    using counts_invariant [OF ok0, of ?entries] ents load_example by auto
  have after_game: "registry_ok (snd (projr ?game))"
    using counts_invariant [OF ok0, where m = "Some (''alice'', ''win'', ''bob'')"
        and report = "fst (projr ?game)" and after_match = "snd (projr ?game)"] game_eq
    by blast
  have ok: "registry_ok ?ps"
    by (simp add: registry_ok_def counts_ok_def)
  have "?ps (canonicalize (strip ''bob'')) = Some ?bob"
    and "?ps (canonicalize (strip ''Bobby'')) = Some ?bobby"
    by (simp_all add: canon_bob_lower canon_bobby)
  then have combine: "\<not> isl ?combine"
    using process_combine_command_result [of ?ps "''bob''" ?bob "''Bobby''" ?bobby] by auto
  then have combine_eq: "?combine = Inr (fst (projr ?combine), snd (projr ?combine))"
    by (cases ?combine) auto
  have after_combine: "registry_ok (snd (projr ?combine))"
    using counts_invariant [OF ok, where c = "Some (''bob'', ''Bobby'')"
        and report' = "fst (projr ?combine)" and after_combine = "snd (projr ?combine)"]
      combine_eq
    by blast
  have merge: "\<not> isl ?merge"
    by (simp add: merge_record_def)
  then have merge_eq: "?merge = Inr (projr ?merge)"
    by (cases ?merge) auto
  have after_merge: "registry_ok (projr ?merge)"
    using counts_invariant [OF ok, where n_wins = 2 and n_played = 5 and key = "''bobby''"
        and new_display = "''Bobby''" and off = 300 and deff = 300 and arg_rank_d = None
        and arg_rank_o = None and arg_rank_a = None and after_merge = "projr ?merge"]
      merge_eq
    by simp
  from ok0 ents loaded game after_game ok combine after_combine merge after_merge
  show ?thesis
    by blast
qed

section \<open>When processing a match returns\<close>







lemma update_team_None:
  "names \<noteq> [] \<Longrightarrow> update_team role score None multiplier names players = Inl TypeError"
  by (cases names) (auto simp: update_rating_def split: prod.splits)










end
